theory Spec2Isabelle
  imports Main
begin

section \<open>JavaScript values used by the notifier\<close>

text \<open>
  Strings are modelled as lists of bytes (the UTF-8 encoding of the JavaScript string).
  Every operation of the source that inspects characters (the digit patterns, the split at
  the bar, the markdown escaping, the hex parser) looks for ASCII characters only, and an
  ASCII byte never occurs inside a multi-byte sequence, so the byte view and the code-unit
  view of the source agree on them.

  An optional string (\<open>string | undefined\<close>) is a \<open>string option\<close>. JavaScript treats
  \<open>undefined\<close> and the empty string as falsy; \<open>a || b\<close> is \<open>a\<close> when \<open>a\<close> is truthy and
  \<open>b\<close> otherwise.
\<close>

definition truthy :: "string option \<Rightarrow> bool" where
  "truthy v = (case v of None \<Rightarrow> False | Some s \<Rightarrow> s \<noteq> [])"

definition js_or :: "string option \<Rightarrow> string option \<Rightarrow> string option" where
  "js_or a b = (if truthy a then a else b)"

definition js_or_str :: "string option \<Rightarrow> string \<Rightarrow> string" where
  "js_or_str a b = (case a of None \<Rightarrow> b | Some s \<Rightarrow> if s = [] then b else s)"

text \<open>
  A thrown error, with the name and the message that \<open>${error}\<close> renders as
  \<open>name: message\<close>. The wording of the engine's own TypeError is V8's.
\<close>

datatype js_error = Thrown string string

definition render :: "js_error \<Rightarrow> string" where
  "render e = (case e of Thrown name msg \<Rightarrow> name @ '': '' @ msg)"

definition cannot_read :: "string \<Rightarrow> string \<Rightarrow> js_error" where
  "cannot_read what prop =
     Thrown ''TypeError''
       (''Cannot read properties of '' @ what @ '' (reading '' @ [CHR 0x27] @ prop @ [CHR 0x27] @ '')'')"

text \<open>The two regular expressions of the channel resolver: \<open>/^\d+$/\<close> and \<open>/^-?\d+$/\<close>.\<close>

definition is_digit :: "char \<Rightarrow> bool" where
  "is_digit c = (c \<in> set ''0123456789'')"

definition re_digits :: "string \<Rightarrow> bool" where
  "re_digits s = (s \<noteq> [] \<and> list_all is_digit s)"

definition re_opt_minus_digits :: "string \<Rightarrow> bool" where
  "re_opt_minus_digits s =
     (case s of [] \<Rightarrow> False
      | c # r \<Rightarrow> if c = CHR ''-'' then re_digits r else re_digits s)"

text \<open>
  What \<open>table[key]\<close> reads from an object that \<open>JSON.parse\<close> built with string
  values: the string written under that key, or, when the document has no such key and the
  key names a member of \<open>Object.prototype\<close>, that inherited member (a function; for
  \<open>__proto__\<close> the prototype object), or \<open>undefined\<close>. An inherited member is truthy.
\<close>

datatype js_value = Str string | Inherited string

definition object_prototype_members :: "string list" where
  "object_prototype_members =
     [''constructor'', ''hasOwnProperty'', ''isPrototypeOf'', ''propertyIsEnumerable'',
      ''toLocaleString'', ''toString'', ''valueOf'', ''__proto__'', ''__defineGetter__'',
      ''__defineSetter__'', ''__lookupGetter__'', ''__lookupSetter__'']"

definition js_get :: "(string \<rightharpoonup> string) \<Rightarrow> string \<Rightarrow> js_value option" where
  "js_get table key =
     (case table key of
        Some v \<Rightarrow> Some (Str v)
      | None \<Rightarrow> if key \<in> set object_prototype_members then Some (Inherited key) else None)"

text \<open>\<open>!v\<close> for such a value, and \<open>v || s\<close> with a string \<open>s\<close>.\<close>

definition falsy :: "js_value \<Rightarrow> bool" where
  "falsy v = (case v of Str s \<Rightarrow> s = [] | Inherited _ \<Rightarrow> False)"

definition js_or_value :: "js_value option \<Rightarrow> string \<Rightarrow> js_value" where
  "js_or_value a s =
     (case a of None \<Rightarrow> Str s | Some v \<Rightarrow> if falsy v then Str s else v)"

section \<open>Configuration data (src/config/index.ts)\<close>

text \<open>
  The interfaces \<open>Config\<close>, \<open>DiscordConfig\<close> and \<open>TelegramConfig\<close>. A field that the
  code tests for presence is optional here, also where the interface declares it
  required (\<open>bot\<close> of \<open>DiscordConfig\<close>, \<open>token\<close>): the document comes from a JSON file.
  The alias table \<open>channels\<close> is the finite map of the keys written in the document;
  a read \<open>channels[key]\<close> goes through \<open>js_get\<close>, which also finds inherited members.
  \<open>other_keys\<close> lists the keys of \<open>platforms\<close> other than the two the code reads;
  they only count in \<open>Object.keys\<close>.
\<close>

record BotConfig =
  token :: "string option"
  channels :: "(string \<rightharpoonup> string) option"

record DiscordConfig =
  discord_bot :: "BotConfig option"

record TelegramConfig =
  telegram_bot :: "BotConfig option"

record Platforms =
  discord :: "DiscordConfig option"
  telegram :: "TelegramConfig option"
  other_keys :: "string list"

record Defaults =
  defaults_platform :: "string option"
  defaults_channel :: "string option"

record Config =
  platforms :: Platforms
  defaults :: Defaults

text \<open>
  What a parsed JSON document offers to \<open>loadConfig\<close>: \<open>null\<close>, on which every
  property read throws, or any other value with its \<open>platforms\<close> and \<open>defaults\<close>
  properties, each possibly absent.
\<close>

datatype json_doc = ParsedNull | ParsedValue "Platforms option" "Defaults option"

section \<open>Messages, payloads and the outside world (src/platforms/base.ts)\<close>

datatype Format = Plain | Markdown | Embed

record Field =
  field_name :: string
  field_value :: string
  field_inline :: "bool option"

text \<open>\<open>MessageOptions\<close>; an absent \<open>silent\<close> is \<open>False\<close>, as \<open>options?.silent || false\<close> reads it.\<close>

record MessageOptions =
  format :: "Format option"
  silent :: bool
  title :: "string option"
  color :: "string option"
  option_fields :: "Field list option"

text \<open>\<open>MessageResult\<close>; the \<open>Date\<close> of the result is the clock reading of the run.\<close>

record MessageResult =
  success :: bool
  messageId :: "string option"
  error :: "string option"
  timestamp :: string

text \<open>A JavaScript number as \<open>parseInt\<close> returns it: \<open>NaN\<close> or an integer.\<close>

datatype js_number = NaN | Num int

record DiscordEmbed =
  embed_title :: string
  embed_description :: string
  embed_timestamp :: string
  embed_color :: "js_number option"
  embed_fields :: "Field list option"

record DiscordPayload =
  content :: "string option"
  embeds :: "DiscordEmbed list option"

record TelegramPayload =
  payload_text :: string
  disable_notification :: bool
  parse_mode :: "string option"
  chat_id :: "js_value option"

text \<open>
  An HTTP request as handed to \<open>fetch\<close>; the body is the payload that
  \<open>JSON.stringify\<close> serialises. A response offers what the senders read from it:
  \<open>ok\<close>, \<open>status\<close>, the text, and the properties \<open>id\<close>, \<open>description\<close> and
  \<open>result.message_id.toString()\<close> of the parsed body, each of which may throw.
\<close>

datatype Body = DiscordBody DiscordPayload | TelegramBody TelegramPayload

record Request =
  url :: string
  http_method :: string
  headers :: "(string \<times> string) list"
  body :: Body

record Response =
  ok :: bool
  status :: nat
  response_text :: "js_error + string"
  json_id :: "js_error + string option"
  json_description :: "js_error + string option"
  json_message_id :: "js_error + string"

text \<open>
  Console output, process exit and HTTP requests are recorded as a trace of events.
  \<open>ConsoleLogJson p v\<close> is \<open>console.log(p + JSON.stringify(v, null, 2))\<close>.
\<close>

datatype event =
    ConsoleLog string
  | ConsoleWarn string
  | ConsoleError string
  | ConsoleLogJson string MessageOptions
  | ProcessExit nat
  | Fetch Request

text \<open>
  The collaborators outside the repository: the process environment, the home and the
  working directory, \<open>path.join\<close>, the file system, \<open>JSON.parse\<close>, the network and
  the clock (\<open>new Date().toISOString()\<close>, read once per run). \<open>member_text n\<close> is
  the text that the engine's template literal gives for the inherited member \<open>n\<close>.
\<close>

record Sys =
  env :: "string \<rightharpoonup> string"
  homedir :: string
  cwd :: string
  join :: "string list \<Rightarrow> string"
  existsSync :: "string \<Rightarrow> bool"
  readFileSync :: "string \<Rightarrow> js_error + string"
  JSON_parse :: "string \<Rightarrow> js_error + json_doc"
  fetch :: "Request \<Rightarrow> js_error + Response"
  now_iso :: string
  member_text :: "string \<Rightarrow> string"

section \<open>The configuration manager (src/config/index.ts)\<close>

subsection \<open>Channel resolver\<close>

text \<open>
  Both resolvers are declared to return \<open>string | undefined\<close>; what they return at run
  time is the input, or whatever \<open>channels[aliasOrId]\<close> reads when that is truthy.
\<close>

definition getDiscordChannel :: "Config \<Rightarrow> string \<Rightarrow> js_value" where
  "getDiscordChannel cfg aliasOrId =
     (case discord (platforms cfg) of
        None \<Rightarrow> Str aliasOrId
      | Some discordConfig \<Rightarrow>
          (case discord_bot discordConfig of
             None \<Rightarrow> Str aliasOrId
           | Some b \<Rightarrow>
               (case channels b of
                  None \<Rightarrow> Str aliasOrId
                | Some chans \<Rightarrow>
                    if re_digits aliasOrId then Str aliasOrId
                    else js_or_value (js_get chans aliasOrId) aliasOrId)))"

definition getTelegramChannel :: "Config \<Rightarrow> string \<Rightarrow> js_value" where
  "getTelegramChannel cfg aliasOrId =
     (case telegram (platforms cfg) of
        None \<Rightarrow> Str aliasOrId
      | Some telegramConfig \<Rightarrow>
          (case telegram_bot telegramConfig of
             None \<Rightarrow> Str aliasOrId
           | Some b \<Rightarrow>
               (case channels b of
                  None \<Rightarrow> Str aliasOrId
                | Some chans \<Rightarrow>
                    if re_opt_minus_digits aliasOrId then Str aliasOrId
                    else js_or_value (js_get chans aliasOrId) aliasOrId)))"

subsection \<open>Tokens\<close>

definition getDiscordToken :: "Sys \<Rightarrow> Config \<Rightarrow> string option" where
  "getDiscordToken sys cfg =
     js_or (env sys ''NOTIFE_DISCORD_TOKEN'')
       (case discord (platforms cfg) of
          None \<Rightarrow> None
        | Some d \<Rightarrow> (case discord_bot d of None \<Rightarrow> None | Some b \<Rightarrow> token b))"

definition getTelegramToken :: "Sys \<Rightarrow> Config \<Rightarrow> string option" where
  "getTelegramToken sys cfg =
     js_or (env sys ''NOTIFE_TELEGRAM_TOKEN'')
       (case telegram (platforms cfg) of
          None \<Rightarrow> None
        | Some t \<Rightarrow> (case telegram_bot t of None \<Rightarrow> None | Some b \<Rightarrow> token b))"

subsection \<open>Locating and loading the file\<close>

text \<open>
  \<open>findConfigFile\<close>: the candidates in the order of the array, with the falsy entries
  dropped by \<open>filter(Boolean)\<close>; the first one that exists, else the path under the
  home directory.
\<close>

definition possiblePaths :: "Sys \<Rightarrow> string list" where
  "possiblePaths sys =
     List.map_filter (\<lambda>p. if truthy p then p else None)
       [env sys ''NOTIFE_CONFIG_PATH'',
        Some (join sys [homedir sys, ''.notife'', ''config.json'']),
        Some (join sys [cwd sys, ''config.json'']),
        Some (join sys [cwd sys, ''.notife.json'']),
        Some (join sys [homedir sys, ''.notife.json''])]"

definition findConfigFile :: "Sys \<Rightarrow> string" where
  "findConfigFile sys =
     (case find (existsSync sys) (possiblePaths sys) of
        Some path \<Rightarrow> path
      | None \<Rightarrow> join sys [homedir sys, ''.notife'', ''config.json''])"

definition defaultConfig :: Config where
  "defaultConfig =
     \<lparr>platforms = \<lparr>discord = None, telegram = None, other_keys = []\<rparr>,
      defaults = \<lparr>defaults_platform = None, defaults_channel = None\<rparr>\<rparr>"

text \<open>The body of the \<open>try\<close> block of \<open>loadConfig\<close>: read, parse, merge over the default.\<close>

definition readAndMerge :: "Sys \<Rightarrow> string \<Rightarrow> js_error + Config" where
  "readAndMerge sys configPath =
     (case readFileSync sys configPath of
        Inl e \<Rightarrow> Inl e
      | Inr configContent \<Rightarrow>
          (case JSON_parse sys configContent of
             Inl e \<Rightarrow> Inl e
           | Inr ParsedNull \<Rightarrow> Inl (cannot_read ''null'' ''platforms'')
           | Inr (ParsedValue p d) \<Rightarrow>
               Inr \<lparr>platforms = (case p of None \<Rightarrow> platforms defaultConfig | Some x \<Rightarrow> x),
                    defaults = (case d of None \<Rightarrow> defaults defaultConfig | Some x \<Rightarrow> x)\<rparr>))"

definition loadConfig :: "Sys \<Rightarrow> string \<Rightarrow> Config \<times> event list" where
  "loadConfig sys configPath =
     (if \<not> existsSync sys configPath then
        (defaultConfig,
         [ConsoleWarn (''Config file not found at '' @ configPath @ ''. Using default configuration.'')])
      else
        (case readAndMerge sys configPath of
           Inr c \<Rightarrow> (c, [])
         | Inl e \<Rightarrow> (defaultConfig, [ConsoleError (''Error loading config file: '' @ render e)])))"

text \<open>The constructor: \<open>configPath || this.findConfigFile()\<close>, then the load.\<close>

record ConfigManager =
  config :: Config
  configPath :: string

definition resolveConfigPath :: "Sys \<Rightarrow> string option \<Rightarrow> string" where
  "resolveConfigPath sys arg = js_or_str arg (findConfigFile sys)"

definition newConfigManager :: "Sys \<Rightarrow> string option \<Rightarrow> ConfigManager \<times> event list" where
  "newConfigManager sys arg =
     (let path = resolveConfigPath sys arg;
          (c, out) = loadConfig sys path
      in (\<lparr>config = c, configPath = path\<rparr>, out))"

subsection \<open>Validation\<close>

record Validation =
  valid :: bool
  errors :: "string list"

definition platform_keys :: "Platforms \<Rightarrow> string list" where
  "platform_keys p =
     (case discord p of None \<Rightarrow> [] | Some _ \<Rightarrow> [''discord'']) @
     (case telegram p of None \<Rightarrow> [] | Some _ \<Rightarrow> [''telegram'']) @ other_keys p"

text \<open>
  The Discord block of \<open>validateConfig\<close>. After the test \<open>!discord.bot\<close> the next
  statement reads \<open>discord.bot.token\<close> with no guard, which throws when the bot block
  is absent.
\<close>

definition validateDiscord :: "Sys \<Rightarrow> Config \<Rightarrow> string list \<Rightarrow> js_error + string list" where
  "validateDiscord sys cfg errs =
     (case discord (platforms cfg) of
        None \<Rightarrow> Inr errs
      | Some d \<Rightarrow>
          (let errs1 = (if discord_bot d = None
                        then errs @ [''Discord platform configured but no bot configuration found'']
                        else errs)
           in case discord_bot d of
                None \<Rightarrow> Inl (cannot_read ''undefined'' ''token'')
              | Some b \<Rightarrow>
                  Inr (if \<not> truthy (token b) \<and> \<not> truthy (env sys ''NOTIFE_DISCORD_TOKEN'')
                       then errs1 @ [''Discord bot configured but no token provided'']
                       else errs1)))"

text \<open>The Telegram block guards the token test with \<open>telegram.bot &&\<close>.\<close>

definition validateTelegram :: "Sys \<Rightarrow> Config \<Rightarrow> string list \<Rightarrow> string list" where
  "validateTelegram sys cfg errs =
     (case telegram (platforms cfg) of
        None \<Rightarrow> errs
      | Some t \<Rightarrow>
          (let errs1 = (if telegram_bot t = None
                        then errs @ [''Telegram platform configured but no bot configuration found'']
                        else errs)
           in case telegram_bot t of
                None \<Rightarrow> errs1
              | Some b \<Rightarrow>
                  if \<not> truthy (token b) \<and> \<not> truthy (env sys ''NOTIFE_TELEGRAM_TOKEN'')
                  then errs1 @ [''Telegram bot configured but no token provided'']
                  else errs1))"

definition validateConfig :: "Sys \<Rightarrow> Config \<Rightarrow> js_error + Validation" where
  "validateConfig sys cfg =
     (let errs0 = (if length (platform_keys (platforms cfg)) = 0
                   then [''No platforms configured''] else [])
      in case validateDiscord sys cfg errs0 of
           Inl e \<Rightarrow> Inl e
         | Inr errs1 \<Rightarrow>
             (let errs2 = validateTelegram sys cfg errs1
              in Inr \<lparr>valid = (length errs2 = 0), errors = errs2\<rparr>))"

section \<open>String helpers of the formatters\<close>

text \<open>\<open>s.split(c)\<close> for a one-character separator: always at least one part.\<close>

fun split_on :: "char \<Rightarrow> string \<Rightarrow> string list" where
  "split_on c [] = [[]]"
| "split_on c (x # xs) =
     (if x = c then [] # split_on c xs
      else (case split_on c xs of [] \<Rightarrow> [[x]] | p # ps \<Rightarrow> (x # p) # ps))"

text \<open>\<open>parts[i]\<close>: \<open>undefined\<close> beyond the end of the array.\<close>

definition part :: "string list \<Rightarrow> nat \<Rightarrow> string option" where
  "part parts i = (if i < length parts then Some (parts ! i) else None)"

text \<open>\<open>s.replace(c, r)\<close> with a string pattern: the first occurrence only.\<close>

fun replace_first :: "char \<Rightarrow> string \<Rightarrow> string \<Rightarrow> string" where
  "replace_first c r [] = []"
| "replace_first c r (x # xs) = (if x = c then r @ xs else x # replace_first c r xs)"

text \<open>
  \<open>s.replace(new RegExp('\\' + c, 'g'), r)\<close>: the pattern is the escaped character
  \<open>c\<close>, which matches \<open>c\<close> itself, and the flag \<open>g\<close> replaces every occurrence.
\<close>

definition replace_all :: "char \<Rightarrow> string \<Rightarrow> string \<Rightarrow> string" where
  "replace_all c r s = concat (map (\<lambda>x. if x = c then r else [x]) s)"

text \<open>
  \<open>parseInt(s, 16)\<close>: leading white space, a sign, the prefix \<open>0x\<close>, then the longest
  run of hexadecimal digits; \<open>NaN\<close> when that run is empty. The white space is the
  ASCII part of the language's set, and the value is exact, as the double of the source
  is below \<open>2^53\<close>.
\<close>

definition is_space :: "char \<Rightarrow> bool" where
  "is_space c = (c \<in> set [CHR 0x20, CHR 0x09, CHR 0x0A, CHR 0x0B, CHR 0x0C, CHR 0x0D])"

definition hex_value :: "char \<Rightarrow> nat option" where
  "hex_value c =
     map_of (zip ''0123456789abcdef'' [0 ..< 16] @ zip ''ABCDEF'' [10 ..< 16]) c"

definition strip_sign :: "string \<Rightarrow> bool \<times> string" where
  "strip_sign s =
     (case s of [] \<Rightarrow> (False, [])
      | c # r \<Rightarrow> if c = CHR ''-'' then (True, r)
                 else if c = CHR ''+'' then (False, r) else (False, s))"

definition strip_0x :: "string \<Rightarrow> string" where
  "strip_0x s =
     (case s of
        a # b # r \<Rightarrow> if a = CHR ''0'' \<and> (b = CHR ''x'' \<or> b = CHR ''X'') then r else s
      | _ \<Rightarrow> s)"

definition hex_digits_value :: "string \<Rightarrow> nat" where
  "hex_digits_value z =
     foldl (\<lambda>acc c. 16 * acc + (case hex_value c of None \<Rightarrow> 0 | Some d \<Rightarrow> d)) 0 z"

definition parseInt16 :: "string \<Rightarrow> js_number" where
  "parseInt16 s =
     (let (neg, s1) = strip_sign (dropWhile is_space s);
          z = takeWhile (\<lambda>c. hex_value c \<noteq> None) (strip_0x s1)
      in if z = [] then NaN
         else Num ((if neg then - 1 else 1) * int (hex_digits_value z)))"

text \<open>\<open>`${n}`\<close> for a status code: the decimal digits.\<close>

fun show_nat :: "nat \<Rightarrow> string" where
  "show_nat n =
     (if n < 10 then [''0123456789'' ! n]
      else show_nat (n div 10) @ [''0123456789'' ! (n mod 10)])"

declare show_nat.simps [simp del]

section \<open>Results (src/platforms/base.ts)\<close>

definition createErrorResult :: "Sys \<Rightarrow> string \<Rightarrow> MessageResult" where
  "createErrorResult sys err =
     \<lparr>success = False, messageId = None, error = Some err, timestamp = now_iso sys\<rparr>"

definition createSuccessResult :: "Sys \<Rightarrow> string option \<Rightarrow> MessageResult" where
  "createSuccessResult sys mid =
     \<lparr>success = True, messageId = mid, error = None, timestamp = now_iso sys\<rparr>"

section \<open>Discord (src/platforms/discord.ts)\<close>

definition hex_color :: "string \<Rightarrow> js_number" where
  "hex_color s = parseInt16 (replace_first (CHR ''#'') [] s)"

definition createBotPayload :: "Sys \<Rightarrow> string \<Rightarrow> MessageOptions option \<Rightarrow> DiscordPayload" where
  "createBotPayload sys message options =
     (case options of
        None \<Rightarrow> \<lparr>content = Some message, embeds = None\<rparr>
      | Some opts \<Rightarrow>
          if format opts = Some Embed then
            (let parts = split_on (CHR ''|'') message;
                 embed = \<lparr>embed_title = js_or_str (part parts 0) ''Notification'',
                          embed_description = js_or_str (part parts 1) message,
                          embed_timestamp = now_iso sys,
                          embed_color =
                            (if truthy (part parts 2) then map_option hex_color (part parts 2)
                             else if truthy (color opts) then map_option hex_color (color opts)
                             else None),
                          embed_fields = option_fields opts\<rparr>
             in \<lparr>content = None, embeds = Some [embed]\<rparr>)
          else \<lparr>content = Some message, embeds = None\<rparr>)"

text \<open>\<open>`${channelId}`\<close>: the string itself, or the engine's text of an inherited member.\<close>

definition template_text :: "Sys \<Rightarrow> js_value \<Rightarrow> string" where
  "template_text sys v = (case v of Str s \<Rightarrow> s | Inherited n \<Rightarrow> member_text sys n)"

definition discord_request :: "string \<Rightarrow> string \<Rightarrow> DiscordPayload \<Rightarrow> Request" where
  "discord_request tok channelId payload =
     \<lparr>url = ''https://discord.com/api/v10/channels/'' @ channelId @ ''/messages'',
      http_method = ''POST'',
      headers = [(''Authorization'', ''Bot '' @ tok), (''Content-Type'', ''application/json'')],
      body = DiscordBody payload\<rparr>"

text \<open>
  \<open>sendBotMessage\<close>: the result and the trace. Everything thrown by \<open>fetch\<close>,
  \<open>response.text()\<close> or \<open>response.json()\<close> lands in the \<open>catch\<close>.
\<close>

definition discord_sendBotMessage ::
  "Sys \<Rightarrow> string \<Rightarrow> js_value \<Rightarrow> string \<Rightarrow> MessageOptions option \<Rightarrow> MessageResult \<times> event list" where
  "discord_sendBotMessage sys tok channelId message options =
     (let req = discord_request tok (template_text sys channelId)
                   (createBotPayload sys message options);
          outcome =
            (case fetch sys req of
               Inl e \<Rightarrow> Inl e
             | Inr response \<Rightarrow>
                 if \<not> ok response then
                   (case response_text response of
                      Inl e \<Rightarrow> Inl e
                    | Inr errorText \<Rightarrow>
                        Inr (createErrorResult sys
                          (''Bot API request failed: '' @ show_nat (status response) @ '' '' @ errorText)))
                 else
                   (case json_id response of
                      Inl e \<Rightarrow> Inl e
                    | Inr i \<Rightarrow> Inr (createSuccessResult sys i)))
      in (case outcome of
            Inr r \<Rightarrow> r
          | Inl e \<Rightarrow> createErrorResult sys (''Bot API error: '' @ render e),
          [Fetch req]))"

text \<open>
  \<open>sendMessage\<close>. Nothing between its \<open>try\<close> and \<open>catch\<close> throws: the getters read
  optional fields only and \<open>sendBotMessage\<close> catches for itself. The test
  \<open>!channelId\<close> is on whatever the resolver returned.
\<close>

definition discord_sendMessage ::
  "Sys \<Rightarrow> Config \<Rightarrow> string \<Rightarrow> string \<Rightarrow> MessageOptions option \<Rightarrow> MessageResult \<times> event list" where
  "discord_sendMessage sys cfg target message options =
     (case getDiscordToken sys cfg of
        None \<Rightarrow> (createErrorResult sys ''Discord bot token not configured'', [])
      | Some tok \<Rightarrow>
          if tok = [] then (createErrorResult sys ''Discord bot token not configured'', [])
          else
            (let channelId = getDiscordChannel cfg target
             in if falsy channelId
                then (createErrorResult sys (''Invalid Discord channel: '' @ target), [])
                else discord_sendBotMessage sys tok channelId message options))"

section \<open>Telegram (src/platforms/telegram.ts)\<close>

definition specialChars :: "char list" where
  \<open>specialChars = ''_*[]()~`>#+-=|{}.!''\<close>

definition backslash :: char where
  "backslash = CHR 0x5C"

text \<open>\<open>escapeMarkdownV2\<close>: the loop over \<open>specialChars\<close>, one global replace each.\<close>

definition escapeMarkdownV2 :: "string \<Rightarrow> string" where
  "escapeMarkdownV2 txt =
     foldl (\<lambda>escaped c. replace_all c [backslash, c] escaped) txt specialChars"

definition format_field :: "Field \<Rightarrow> string" where
  "format_field f =
     ''*'' @ escapeMarkdownV2 (field_name f) @ '':* '' @ escapeMarkdownV2 (field_value f) @ [CHR 0x0A]"

definition formatAsEmbed :: "string \<Rightarrow> MessageOptions option \<Rightarrow> string" where
  "formatAsEmbed message options =
     (let parts = split_on (CHR ''|'') message;
          ttl = js_or_str (js_or (part parts 0) (case options of None \<Rightarrow> None | Some opts \<Rightarrow> title opts))
                  ''Notification'';
          description = js_or_str (part parts 1) message;
          formatted = ''*'' @ escapeMarkdownV2 ttl @ ''*'' @ [CHR 0x0A, CHR 0x0A]
                      @ escapeMarkdownV2 description
      in case options of
           None \<Rightarrow> formatted
         | Some opts \<Rightarrow>
             (case option_fields opts of
                None \<Rightarrow> formatted
              | Some fs \<Rightarrow>
                  if length fs > 0
                  then formatted @ [CHR 0x0A, CHR 0x0A] @ concat (map format_field fs)
                  else formatted))"

definition createMessagePayload :: "string \<Rightarrow> MessageOptions option \<Rightarrow> TelegramPayload" where
  "createMessagePayload message options =
     (let payload = \<lparr>payload_text = message,
                      disable_notification = (case options of None \<Rightarrow> False | Some opts \<Rightarrow> silent opts),
                      parse_mode = None, chat_id = None\<rparr>
      in case (case options of None \<Rightarrow> None | Some opts \<Rightarrow> format opts) of
           Some Markdown \<Rightarrow>
             payload\<lparr>parse_mode := Some ''MarkdownV2'', payload_text := escapeMarkdownV2 message\<rparr>
         | Some Embed \<Rightarrow>
             payload\<lparr>parse_mode := Some ''MarkdownV2'', payload_text := formatAsEmbed message options\<rparr>
         | _ \<Rightarrow> payload)"

definition telegram_request :: "string \<Rightarrow> TelegramPayload \<Rightarrow> Request" where
  "telegram_request tok payload =
     \<lparr>url = ''https://api.telegram.org/bot'' @ tok @ ''/sendMessage'',
      http_method = ''POST'',
      headers = [(''Content-Type'', ''application/json'')],
      body = TelegramBody payload\<rparr>"

definition telegram_sendBotMessage ::
  "Sys \<Rightarrow> string \<Rightarrow> js_value \<Rightarrow> string \<Rightarrow> MessageOptions option \<Rightarrow> MessageResult \<times> event list" where
  "telegram_sendBotMessage sys tok channelId message options =
     (let payload = (createMessagePayload message options)\<lparr>chat_id := Some channelId\<rparr>;
          req = telegram_request tok payload;
          outcome =
            (case fetch sys req of
               Inl e \<Rightarrow> Inl e
             | Inr response \<Rightarrow>
                 if \<not> ok response then
                   (case json_description response of
                      Inl e \<Rightarrow> Inl e
                    | Inr d \<Rightarrow>
                        Inr (createErrorResult sys
                          (''Telegram API request failed: '' @ show_nat (status response) @ '' ''
                             @ js_or_str d ''Unknown error'')))
                 else
                   (case json_message_id response of
                      Inl e \<Rightarrow> Inl e
                    | Inr i \<Rightarrow> Inr (createSuccessResult sys (Some i))))
      in (case outcome of
            Inr r \<Rightarrow> r
          | Inl e \<Rightarrow> createErrorResult sys (''Telegram API error: '' @ render e),
          [Fetch req]))"

definition telegram_sendMessage ::
  "Sys \<Rightarrow> Config \<Rightarrow> string \<Rightarrow> string \<Rightarrow> MessageOptions option \<Rightarrow> MessageResult \<times> event list" where
  "telegram_sendMessage sys cfg target message options =
     (case getTelegramToken sys cfg of
        None \<Rightarrow> (createErrorResult sys ''Telegram bot token not configured'', [])
      | Some tok \<Rightarrow>
          if tok = [] then (createErrorResult sys ''Telegram bot token not configured'', [])
          else
            (let channelId = getTelegramChannel cfg target
             in if falsy channelId
                then (createErrorResult sys (''Invalid Telegram channel: '' @ target), [])
                else telegram_sendBotMessage sys tok channelId message options))"

section \<open>The send command (src/commands/send.ts)\<close>

text \<open>\<open>SendCommandArgs\<close>; a flag that was not given is \<open>False\<close>, as every test of it reads it.\<close>

record SendCommandArgs =
  arg_m :: string
  arg_discord :: bool
  arg_telegram :: bool
  arg_channelID :: "string option"
  arg_channel :: "string option"
  arg_format :: "Format option"
  arg_silent :: bool
  arg_config :: "string option"
  arg_dry_run :: bool

text \<open>
  The first \<open>switch\<close> of \<open>sendToPlatform\<close>: the target, or the output of the branch
  that returns early.
\<close>

definition chooseTarget :: "string \<Rightarrow> SendCommandArgs \<Rightarrow> Config \<Rightarrow> event list + string option" where
  "chooseTarget platformName args cfg =
     (if platformName = ''discord'' then
        (let target = js_or (arg_channelID args) (arg_channel args)
         in if \<not> truthy target
            then Inr (Some (js_or_str (defaults_channel (defaults cfg)) ''general''))
            else Inr target)
      else if platformName = ''telegram'' then
        (let target = js_or (arg_channelID args) (arg_channel args);
             target1 = (if \<not> truthy target then defaults_channel (defaults cfg) else target)
         in if \<not> truthy target1
            then Inl [ConsoleError ''Telegram requires --channelID or --channel parameter'']
            else Inr target1)
      else Inl [ConsoleError (''Unsupported platform: '' @ platformName)])"

definition check_mark :: string where
  "check_mark = [CHR 0xE2, CHR 0x9C, CHR 0x85]"

definition cross_mark :: string where
  "cross_mark = [CHR 0xE2, CHR 0x9D, CHR 0x8C]"

definition reportResult :: "string \<Rightarrow> MessageOptions \<Rightarrow> MessageResult \<Rightarrow> event list" where
  "reportResult platformName options result =
     (if success result then
        (if \<not> silent options then
           ConsoleLog (check_mark @ '' Message sent successfully to '' @ platformName)
           # (case messageId result of
                None \<Rightarrow> []
              | Some i \<Rightarrow> if i = [] then [] else [ConsoleLog (''   Message ID: '' @ i)])
         else [])
      else
        [ConsoleError (cross_mark @ '' Failed to send message to '' @ platformName @ '': ''
           @ (case error result of None \<Rightarrow> ''undefined'' | Some e \<Rightarrow> e))])"

definition sendToPlatform ::
  "Sys \<Rightarrow> string \<Rightarrow> SendCommandArgs \<Rightarrow> Config \<Rightarrow> MessageOptions \<Rightarrow> event list" where
  "sendToPlatform sys platformName args cfg options =
     (case chooseTarget platformName args cfg of
        Inl out \<Rightarrow> out
      | Inr target \<Rightarrow>
          (case (if truthy target then target else None) of
             None \<Rightarrow> [ConsoleError (''No target specified for '' @ platformName)]
           | Some tgt \<Rightarrow>
               if arg_dry_run args then
                 [ConsoleLog (''[DRY RUN] Would send to '' @ platformName @ '':''),
                  ConsoleLog (''  Target: '' @ tgt),
                  ConsoleLog (''  Message: '' @ arg_m args),
                  ConsoleLogJson ''  Options: '' options]
               else if platformName \<noteq> ''discord'' \<and> platformName \<noteq> ''telegram'' then
                 [ConsoleError (''Platform '' @ platformName @ '' not implemented'')]
               else
                 (let (result, net) =
                        (if platformName = ''discord''
                         then discord_sendMessage sys cfg tgt (arg_m args) (Some options)
                         else telegram_sendMessage sys cfg tgt (arg_m args) (Some options))
                  in (if \<not> silent options
                      then [ConsoleLog (''Sending message to '' @ platformName @ ''...'')] else [])
                     @ net @ reportResult platformName options result)))"

definition selectPlatforms :: "SendCommandArgs \<Rightarrow> Config \<Rightarrow> string list" where
  "selectPlatforms args cfg =
     (let chosen = (if arg_discord args then [''discord''] else [])
                   @ (if arg_telegram args then [''telegram''] else [])
      in if length chosen = 0
         then [js_or_str (defaults_platform (defaults cfg)) ''discord'']
         else chosen)"

text \<open>
  \<open>handleSendCommand\<close>: the trace of the run. \<open>process.exit(1)\<close> ends it; what
  \<open>validateConfig\<close> throws is caught by the outer \<open>catch\<close>.
\<close>

definition handleSendCommand :: "Sys \<Rightarrow> SendCommandArgs \<Rightarrow> event list" where
  "handleSendCommand sys args =
     (let (mgr, out0) = newConfigManager sys (arg_config args)
      in case validateConfig sys (config mgr) of
           Inl e \<Rightarrow> out0 @ [ConsoleError (''Error: '' @ render e), ProcessExit 1]
         | Inr validation \<Rightarrow>
             if \<not> valid validation then
               out0 @ [ConsoleError ''Configuration validation failed:'']
                 @ map (\<lambda>e. ConsoleError (''  - '' @ e)) (errors validation)
                 @ [ProcessExit 1]
             else
               (let messageOptions =
                      \<lparr>format = Some (case arg_format args of None \<Rightarrow> Plain | Some f \<Rightarrow> f),
                       silent = arg_silent args, title = None, color = None,
                       option_fields = None\<rparr>
                in out0 @ concat (map (\<lambda>platformName.
                                        sendToPlatform sys platformName args (config mgr) messageOptions)
                                      (selectPlatforms args (config mgr)))))"

section \<open>Notions used to state the properties\<close>

text \<open>The alias table of a platform, empty when the platform, its bot block or the table is absent.\<close>

definition discord_channels_of :: "Config \<Rightarrow> string \<rightharpoonup> string" where
  "discord_channels_of cfg =
     (case discord (platforms cfg) of
        None \<Rightarrow> Map.empty
      | Some d \<Rightarrow>
          (case discord_bot d of
             None \<Rightarrow> Map.empty
           | Some b \<Rightarrow> (case channels b of None \<Rightarrow> Map.empty | Some chans \<Rightarrow> chans)))"

definition telegram_channels_of :: "Config \<Rightarrow> string \<rightharpoonup> string" where
  "telegram_channels_of cfg =
     (case telegram (platforms cfg) of
        None \<Rightarrow> Map.empty
      | Some t \<Rightarrow>
          (case telegram_bot t of
             None \<Rightarrow> Map.empty
           | Some b \<Rightarrow> (case channels b of None \<Rightarrow> Map.empty | Some chans \<Rightarrow> chans)))"

text \<open>Whether the platform has an alias table at all.\<close>

definition discord_has_table :: "Config \<Rightarrow> bool" where
  "discord_has_table cfg =
     (case discord (platforms cfg) of
        None \<Rightarrow> False
      | Some d \<Rightarrow> (case discord_bot d of None \<Rightarrow> False | Some b \<Rightarrow> channels b \<noteq> None))"

definition telegram_has_table :: "Config \<Rightarrow> bool" where
  "telegram_has_table cfg =
     (case telegram (platforms cfg) of
        None \<Rightarrow> False
      | Some t \<Rightarrow> (case telegram_bot t of None \<Rightarrow> False | Some b \<Rightarrow> channels b \<noteq> None))"

definition is_fetch :: "event \<Rightarrow> bool" where
  "is_fetch e = (case e of Fetch _ \<Rightarrow> True | _ \<Rightarrow> False)"

text \<open>The preview that a dry run prints for one platform.\<close>

definition preview :: "string \<Rightarrow> string \<Rightarrow> string \<Rightarrow> MessageOptions \<Rightarrow> event list" where
  "preview platformName tgt message options =
     [ConsoleLog (''[DRY RUN] Would send to '' @ platformName @ '':''),
      ConsoleLog (''  Target: '' @ tgt),
      ConsoleLog (''  Message: '' @ message),
      ConsoleLogJson ''  Options: '' options]"

text \<open>The options that \<open>handleSendCommand\<close> builds from the arguments.\<close>

definition messageOptions_of :: "SendCommandArgs \<Rightarrow> MessageOptions" where
  "messageOptions_of args =
     \<lparr>format = Some (case arg_format args of None \<Rightarrow> Plain | Some f \<Rightarrow> f),
      silent = arg_silent args, title = None, color = None, option_fields = None\<rparr>"

text \<open>The error that Telegram reports when no channel can be chosen.\<close>

definition telegram_requires :: event where
  "telegram_requires = ConsoleError ''Telegram requires --channelID or --channel parameter''"

text \<open>The channel that the flags and the default give, before any fallback.\<close>

definition requested_channel :: "SendCommandArgs \<Rightarrow> Config \<Rightarrow> string option" where
  "requested_channel args cfg =
     js_or (js_or (arg_channelID args) (arg_channel args)) (defaults_channel (defaults cfg))"

section \<open>Example inputs\<close>

definition example_bot :: BotConfig where
  "example_bot =
     \<lparr>token = Some ''secret'',
      channels = Some [''alerts'' \<mapsto> ''123456'', ''muted'' \<mapsto> [], ''general'' \<mapsto> ''999'']\<rparr>"

definition example_platforms :: Platforms where
  "example_platforms =
     \<lparr>discord = Some \<lparr>discord_bot = Some example_bot\<rparr>,
      telegram = Some \<lparr>telegram_bot = Some example_bot\<rparr>,
      other_keys = []\<rparr>"

definition example_config :: Config where
  "example_config =
     \<lparr>platforms = example_platforms,
      defaults = \<lparr>defaults_platform = None, defaults_channel = None\<rparr>\<rparr>"

text \<open>A Discord block without \<open>bot\<close>, as in \<open>{"platforms": {"discord": {}}}\<close>.\<close>

definition discord_without_bot :: Config where
  "discord_without_bot =
     \<lparr>platforms = \<lparr>discord = Some \<lparr>discord_bot = None\<rparr>, telegram = None, other_keys = []\<rparr>,
      defaults = \<lparr>defaults_platform = None, defaults_channel = None\<rparr>\<rparr>"

text \<open>The same for Telegram.\<close>

definition telegram_without_bot :: Config where
  "telegram_without_bot =
     \<lparr>platforms = \<lparr>discord = None, telegram = Some \<lparr>telegram_bot = None\<rparr>, other_keys = []\<rparr>,
      defaults = \<lparr>defaults_platform = None, defaults_channel = None\<rparr>\<rparr>"

definition home_config :: string where
  "home_config = ''/home/u/.notife/config.json''"

text \<open>
  A small system: a POSIX-like \<open>join\<close>, a file table, and a parser that knows three
  documents and rejects every other text.
\<close>

definition posix_join :: "string list \<Rightarrow> string" where
  "posix_join ps = (case ps of [] \<Rightarrow> ''.'' | p # r \<Rightarrow> foldl (\<lambda>a b. a @ ''/'' @ b) p r)"

definition no_bot_document :: string where
  \<open>no_bot_document = ''{"platforms":{"discord":{}}}''\<close>

definition example_parse :: "string \<Rightarrow> js_error + json_doc" where
  "example_parse s =
     (if s = no_bot_document
      then Inr (ParsedValue (Some (platforms discord_without_bot)) None)
      else if s = ''EXAMPLE''
      then Inr (ParsedValue (Some example_platforms) None)
      else if s = ''null'' then Inr ParsedNull
      else Inl (Thrown ''SyntaxError'' ''Unexpected token''))"

definition example_response :: Response where
  "example_response =
     \<lparr>ok = True, status = 200, response_text = Inr ''{}'', json_id = Inr (Some ''m1''),
      json_description = Inr None, json_message_id = Inr ''7''\<rparr>"

definition example_sys :: "(string \<rightharpoonup> string) \<Rightarrow> (string \<rightharpoonup> string) \<Rightarrow> Sys" where
  "example_sys environment files =
     \<lparr>env = environment, homedir = ''/home/u'', cwd = ''/work'', join = posix_join,
      existsSync = (\<lambda>p. files p \<noteq> None),
      readFileSync = (\<lambda>p. case files p of
                            None \<Rightarrow> Inl (Thrown ''Error'' ''ENOENT'')
                          | Some c \<Rightarrow> Inr c),
      JSON_parse = example_parse,
      fetch = (\<lambda>req. Inr example_response),
      now_iso = ''2024-05-01T12:00:00.000Z'',
      member_text = (\<lambda>n. if n = ''__proto__'' then ''[object Object]''
                          else ''function '' @ (if n = ''constructor'' then ''Object'' else n)
                               @ ''() { [native code] }'')\<rparr>"

definition example_args :: SendCommandArgs where
  "example_args =
     \<lparr>arg_m = ''hello'', arg_discord = True, arg_telegram = True, arg_channelID = None,
      arg_channel = None, arg_format = None, arg_silent = False, arg_config = None,
      arg_dry_run = False\<rparr>"

definition markdown_options :: MessageOptions where
  "markdown_options =
     \<lparr>format = Some Markdown, silent = False, title = None, color = None, option_fields = None\<rparr>"

definition embed_options :: MessageOptions where
  "embed_options =
     \<lparr>format = Some Embed, silent = False, title = None, color = None, option_fields = None\<rparr>"

text \<open>The system whose configuration file under the home directory holds \<open>example_config\<close>.\<close>

definition example_home_sys :: Sys where
  "example_home_sys = example_sys Map.empty [home_config \<mapsto> ''EXAMPLE'']"

definition dry_run_telegram_args :: SendCommandArgs where
  "dry_run_telegram_args = example_args\<lparr>arg_discord := False, arg_dry_run := True\<rparr>"

definition dry_run_alias_args :: SendCommandArgs where
  "dry_run_alias_args = example_args\<lparr>arg_channel := Some ''alerts'', arg_dry_run := True\<rparr>"

section \<open>Properties of the channel resolver\<close>

lemma getDiscordChannel_cases:
  "getDiscordChannel cfg s =
     (if re_digits s then Str s
      else case discord_channels_of cfg s of
             Some v \<Rightarrow> if v = [] then Str s else Str v
           | None \<Rightarrow> if s \<in> set object_prototype_members \<and> discord_has_table cfg
                     then Inherited s else Str s)"
  by (simp add: getDiscordChannel_def discord_channels_of_def discord_has_table_def
      js_or_value_def js_get_def falsy_def split: option.splits)

lemma getTelegramChannel_cases:
  "getTelegramChannel cfg s =
     (if re_opt_minus_digits s then Str s
      else case telegram_channels_of cfg s of
             Some v \<Rightarrow> if v = [] then Str s else Str v
           | None \<Rightarrow> if s \<in> set object_prototype_members \<and> telegram_has_table cfg
                     then Inherited s else Str s)"
  by (simp add: getTelegramChannel_def telegram_channels_of_def telegram_has_table_def
      js_or_value_def js_get_def falsy_def split: option.splits)

lemma resolver_truthy:
  "target \<noteq> [] \<Longrightarrow> \<not> falsy (getDiscordChannel cfg target)"
  "target \<noteq> [] \<Longrightarrow> \<not> falsy (getTelegramChannel cfg target)"
  by (simp_all add: getDiscordChannel_def getTelegramChannel_def js_or_value_def js_get_def
      falsy_def split: option.splits)

lemma example_tables:
  "discord_channels_of example_config = [''alerts'' \<mapsto> ''123456'', ''muted'' \<mapsto> [], ''general'' \<mapsto> ''999'']"
  "telegram_channels_of example_config = [''alerts'' \<mapsto> ''123456'', ''muted'' \<mapsto> [], ''general'' \<mapsto> ''999'']"
  by (simp_all add: discord_channels_of_def telegram_channels_of_def example_config_def
      example_platforms_def example_bot_def)

lemma example_patterns:
  "re_digits ''42''" "\<not> re_digits ''alerts''" "\<not> re_digits ''muted''" "\<not> re_digits ''nokey''"
  "\<not> re_digits ''constructor''"
  "re_opt_minus_digits ''-42''" "\<not> re_opt_minus_digits ''alerts''"
  "\<not> re_opt_minus_digits ''muted''" "\<not> re_opt_minus_digits ''nokey''"
  "\<not> re_opt_minus_digits ''constructor''"
  by (simp_all add: re_digits_def re_opt_minus_digits_def is_digit_def)

lemma example_members:
  "''nokey'' \<notin> set object_prototype_members" "''constructor'' \<in> set object_prototype_members"
  "discord_has_table example_config" "telegram_has_table example_config"
  by (simp_all add: object_prototype_members_def discord_has_table_def telegram_has_table_def
      example_config_def example_platforms_def example_bot_def)

text \<open>
  C3, as stated, fails: the alias \<open>muted\<close> is a key of both alias tables, it is not
  numeric, and the resolver does not return its mapped value (the empty string).
\<close>

theorem resolver_empty_alias_counterexample:
  "discord_channels_of example_config ''muted'' = Some []
   \<and> \<not> re_digits ''muted''
   \<and> getDiscordChannel example_config ''muted'' \<noteq> Str []
   \<and> telegram_channels_of example_config ''muted'' = Some []
   \<and> \<not> re_opt_minus_digits ''muted''
   \<and> getTelegramChannel example_config ''muted'' \<noteq> Str []"
  by (simp add: getDiscordChannel_cases getTelegramChannel_cases example_tables example_patterns)

text \<open>
  C3, amended: a numeric input (Discord: one or more digits; Telegram: an optional minus,
  then one or more digits) is returned unchanged whatever the alias table holds;
  otherwise an alias with a non-empty mapped value resolves to that value, an alias mapped
  to the empty string is returned unchanged, and an alias that is not a key of the table
  and does not name a member of \<open>Object.prototype\<close> is returned unchanged. The resolver
  is a total function: no branch raises. What an absent alias that names such a member
  resolves to is not part of this statement.
\<close>

theorem channel_resolver_policy:
  "(re_digits s \<longrightarrow> getDiscordChannel cfg s = Str s)
   \<and> (\<not> re_digits s \<and> discord_channels_of cfg s = Some v \<and> v \<noteq> []
        \<longrightarrow> getDiscordChannel cfg s = Str v)
   \<and> (\<not> re_digits s
        \<and> (discord_channels_of cfg s = Some []
            \<or> discord_channels_of cfg s = None \<and> s \<notin> set object_prototype_members)
        \<longrightarrow> getDiscordChannel cfg s = Str s)
   \<and> (re_opt_minus_digits s \<longrightarrow> getTelegramChannel cfg s = Str s)
   \<and> (\<not> re_opt_minus_digits s \<and> telegram_channels_of cfg s = Some v \<and> v \<noteq> []
        \<longrightarrow> getTelegramChannel cfg s = Str v)
   \<and> (\<not> re_opt_minus_digits s
        \<and> (telegram_channels_of cfg s = Some []
            \<or> telegram_channels_of cfg s = None \<and> s \<notin> set object_prototype_members)
        \<longrightarrow> getTelegramChannel cfg s = Str s)"
  by (auto simp: getDiscordChannel_cases getTelegramChannel_cases)

theorem channel_resolver_policy_witness:
  "getDiscordChannel example_config ''42'' = Str ''42''
   \<and> getDiscordChannel example_config ''alerts'' = Str ''123456''
   \<and> getDiscordChannel example_config ''muted'' = Str ''muted''
   \<and> getDiscordChannel example_config ''nokey'' = Str ''nokey''
   \<and> getTelegramChannel example_config ''-42'' = Str ''-42''
   \<and> getTelegramChannel example_config ''alerts'' = Str ''123456''
   \<and> getTelegramChannel example_config ''muted'' = Str ''muted''
   \<and> getTelegramChannel example_config ''nokey'' = Str ''nokey''"
  using channel_resolver_policy [of "''42''" example_config "''123456''"]
    channel_resolver_policy [of "''alerts''" example_config "''123456''"]
    channel_resolver_policy [of "''muted''" example_config "''123456''"]
    channel_resolver_policy [of "''nokey''" example_config "''123456''"]
    channel_resolver_policy [of "''-42''" example_config "''123456''"]
  by (simp add: example_tables example_patterns example_members)

lemma discord_sendBotMessage_error:
  "error (fst (discord_sendBotMessage sys tok ch message options)) \<noteq> Some (CHR ''I'' # rest)"
  by (simp add: discord_sendBotMessage_def Let_def createErrorResult_def createSuccessResult_def
      split: sum.splits)

lemma telegram_sendBotMessage_error:
  "error (fst (telegram_sendBotMessage sys tok ch message options)) \<noteq> Some (CHR ''I'' # rest)"
  by (simp add: telegram_sendBotMessage_def Let_def createErrorResult_def createSuccessResult_def
      split: sum.splits)

lemma discord_sendMessage_nonempty_target:
  "target \<noteq> [] \<Longrightarrow>
   discord_sendMessage sys cfg target message options =
     (case getDiscordToken sys cfg of
        None \<Rightarrow> (createErrorResult sys ''Discord bot token not configured'', [])
      | Some tok \<Rightarrow>
          if tok = [] then (createErrorResult sys ''Discord bot token not configured'', [])
          else discord_sendBotMessage sys tok (getDiscordChannel cfg target) message options)"
  by (simp add: discord_sendMessage_def resolver_truthy Let_def split: option.splits)

lemma telegram_sendMessage_nonempty_target:
  "target \<noteq> [] \<Longrightarrow>
   telegram_sendMessage sys cfg target message options =
     (case getTelegramToken sys cfg of
        None \<Rightarrow> (createErrorResult sys ''Telegram bot token not configured'', [])
      | Some tok \<Rightarrow>
          if tok = [] then (createErrorResult sys ''Telegram bot token not configured'', [])
          else telegram_sendBotMessage sys tok (getTelegramChannel cfg target) message options)"
  by (simp add: telegram_sendMessage_def resolver_truthy Let_def split: option.splits)

text \<open>
  What holds of the resolvers for every non-empty target: the result is truthy, it is a
  non-empty string unless the target is absent from the table and names a member of
  \<open>Object.prototype\<close>, and the result of \<open>sendMessage\<close> never carries the error of the
  invalid-channel branch.
\<close>

lemma resolver_string_result:
  assumes "target \<noteq> []"
    and "discord_channels_of cfg target \<noteq> None \<or> target \<notin> set object_prototype_members"
  shows "\<exists>r. r \<noteq> [] \<and> getDiscordChannel cfg target = Str r"
  using assms by (auto simp: getDiscordChannel_cases split: option.splits)

lemma telegram_resolver_string_result:
  assumes "target \<noteq> []"
    and "telegram_channels_of cfg target \<noteq> None \<or> target \<notin> set object_prototype_members"
  shows "\<exists>r. r \<noteq> [] \<and> getTelegramChannel cfg target = Str r"
  using assms by (auto simp: getTelegramChannel_cases split: option.splits)

lemma invalid_channel_unreachable:
  assumes "target \<noteq> []"
  shows "error (fst (discord_sendMessage sys cfg target message options))
           \<noteq> Some (''Invalid Discord channel: '' @ target)"
    and "error (fst (telegram_sendMessage sys cfg target message options))
           \<noteq> Some (''Invalid Telegram channel: '' @ target)"
  using assms
  by (simp_all add: discord_sendMessage_nonempty_target discord_sendBotMessage_error
      telegram_sendMessage_nonempty_target telegram_sendBotMessage_error
      createErrorResult_def split: option.splits)

section \<open>Properties of the configuration manager\<close>

lemma example_sys_simps:
  "env (example_sys e f) = e" "homedir (example_sys e f) = ''/home/u''"
  "cwd (example_sys e f) = ''/work''" "join (example_sys e f) = posix_join"
  "existsSync (example_sys e f) p = (f p \<noteq> None)"
  "readFileSync (example_sys e f) p =
     (case f p of None \<Rightarrow> Inl (Thrown ''Error'' ''ENOENT'') | Some c \<Rightarrow> Inr c)"
  "JSON_parse (example_sys e f) = example_parse"
  "fetch (example_sys e f) req = Inr example_response"
  "now_iso (example_sys e f) = ''2024-05-01T12:00:00.000Z''"
  "member_text (example_sys e f) ''constructor'' = ''function Object() { [native code] }''"
  by (simp_all add: example_sys_def)

lemma example_paths:
  "posix_join [''/home/u'', ''.notife'', ''config.json''] = home_config"
  "posix_join [''/work'', ''config.json''] = ''/work/config.json''"
  "posix_join [''/work'', ''.notife.json''] = ''/work/.notife.json''"
  "posix_join [''/home/u'', ''.notife.json''] = ''/home/u/.notife.json''"
  "home_config \<noteq> []"
  by (simp_all add: posix_join_def home_config_def)

lemma validate_without_bot:
  "validateConfig sys discord_without_bot = Inl (cannot_read ''undefined'' ''token'')"
  by (simp add: validateConfig_def validateDiscord_def discord_without_bot_def platform_keys_def)

lemma load_no_bot:
  "newConfigManager (example_sys Map.empty [home_config \<mapsto> no_bot_document]) None
     = (\<lparr>config = discord_without_bot, configPath = home_config\<rparr>, [])"
  by (simp add: newConfigManager_def resolveConfigPath_def js_or_str_def findConfigFile_def
      possiblePaths_def List.map_filter_simps truthy_def example_sys_simps example_paths
      loadConfig_def readAndMerge_def example_parse_def discord_without_bot_def defaultConfig_def)

lemma validation_failure_aborts:
  "newConfigManager sys (arg_config args) = (mgr, out0) \<Longrightarrow>
   validateConfig sys (config mgr) = Inr v \<Longrightarrow> \<not> valid v \<Longrightarrow>
   handleSendCommand sys args =
     out0 @ ConsoleError ''Configuration validation failed:''
          # map (\<lambda>e. ConsoleError (''  - '' @ e)) (errors v) @ [ProcessExit 1]"
  by (simp add: handleSendCommand_def)

text \<open>
  C1 fails on the code. For a configuration whose Discord block has no \<open>bot\<close>,
  \<open>validateConfig\<close> throws a TypeError in place of returning its list of errors, whereas
  the same shape for Telegram returns the list. The run loaded from such a file prints the
  TypeError through the outer \<open>catch\<close> and exits, and the accumulated validation
  error is never reported.
\<close>

theorem validateConfig_discord_without_bot:
  "validateConfig sys discord_without_bot = Inl (cannot_read ''undefined'' ''token'')
   \<and> validateConfig sys telegram_without_bot =
       Inr \<lparr>valid = False, errors = [''Telegram platform configured but no bot configuration found'']\<rparr>
   \<and> handleSendCommand (example_sys Map.empty [home_config \<mapsto> no_bot_document]) example_args =
       [ConsoleError (''Error: '' @ render (cannot_read ''undefined'' ''token'')), ProcessExit 1]"
proof -
  have a: "validateConfig sys telegram_without_bot =
       Inr \<lparr>valid = False, errors = [''Telegram platform configured but no bot configuration found'']\<rparr>"
    by (simp add: validateConfig_def validateDiscord_def validateTelegram_def
        telegram_without_bot_def platform_keys_def)
  have b: "handleSendCommand (example_sys Map.empty [home_config \<mapsto> no_bot_document]) example_args =
       [ConsoleError (''Error: '' @ render (cannot_read ''undefined'' ''token'')), ProcessExit 1]"
    by (simp add: handleSendCommand_def example_args_def load_no_bot validate_without_bot)
  from validate_without_bot a b show ?thesis by blast
qed

lemma possiblePaths_eq:
  "possiblePaths sys =
     (case env sys ''NOTIFE_CONFIG_PATH'' of None \<Rightarrow> [] | Some p \<Rightarrow> if p = [] then [] else [p])
     @ filter (\<lambda>p. p \<noteq> [])
         [join sys [homedir sys, ''.notife'', ''config.json''],
          join sys [cwd sys, ''config.json''],
          join sys [cwd sys, ''.notife.json''],
          join sys [homedir sys, ''.notife.json'']]"
  by (simp add: possiblePaths_def List.map_filter_simps truthy_def split: option.splits)

text \<open>
  C2, as stated, fails: an explicit path that does not exist is still the resolved path,
  although the configuration file under the home directory exists.
\<close>

theorem explicit_path_counterexample:
  "\<not> existsSync (example_sys Map.empty [home_config \<mapsto> ''EXAMPLE''])
        (resolveConfigPath (example_sys Map.empty [home_config \<mapsto> ''EXAMPLE''])
           (Some ''/tmp/missing.json''))
   \<and> existsSync (example_sys Map.empty [home_config \<mapsto> ''EXAMPLE''])
        (join (example_sys Map.empty [home_config \<mapsto> ''EXAMPLE''])
           [homedir (example_sys Map.empty [home_config \<mapsto> ''EXAMPLE'']), ''.notife'', ''config.json''])"
  by (simp add: resolveConfigPath_def js_or_str_def example_sys_simps example_paths)
     (simp add: home_config_def)

text \<open>
  C2, amended: a non-empty explicit path argument is the configuration path, whether or
  not it exists. Without it, the candidates are, in this order, the environment variable
  \<open>NOTIFE_CONFIG_PATH\<close> when set and non-empty, \<open>.notife/config.json\<close> under the home
  directory, \<open>config.json\<close> and \<open>.notife.json\<close> in the working directory, and
  \<open>.notife.json\<close> under the home directory; the first candidate that exists is the
  path, and when none exists the path is \<open>.notife/config.json\<close> under the home
  directory.
\<close>

theorem config_path_precedence:
  "(arg = Some p \<and> p \<noteq> [] \<longrightarrow> resolveConfigPath sys arg = p)
   \<and> (\<not> truthy arg \<longrightarrow>
        (\<forall>i < length (possiblePaths sys).
           existsSync sys (possiblePaths sys ! i)
           \<and> (\<forall>j < i. \<not> existsSync sys (possiblePaths sys ! j))
           \<longrightarrow> resolveConfigPath sys arg = possiblePaths sys ! i))
   \<and> (\<not> truthy arg \<and> (\<forall>q \<in> set (possiblePaths sys). \<not> existsSync sys q)
        \<longrightarrow> resolveConfigPath sys arg = join sys [homedir sys, ''.notife'', ''config.json''])
   \<and> possiblePaths sys =
       (case env sys ''NOTIFE_CONFIG_PATH'' of None \<Rightarrow> [] | Some e \<Rightarrow> if e = [] then [] else [e])
       @ filter (\<lambda>q. q \<noteq> [])
           [join sys [homedir sys, ''.notife'', ''config.json''],
            join sys [cwd sys, ''config.json''],
            join sys [cwd sys, ''.notife.json''],
            join sys [homedir sys, ''.notife.json'']]"
proof -
  have explicit: "arg = Some p \<and> p \<noteq> [] \<longrightarrow> resolveConfigPath sys arg = p"
    by (simp add: resolveConfigPath_def js_or_str_def)
  have fallback: "\<not> truthy arg \<Longrightarrow> resolveConfigPath sys arg = findConfigFile sys"
    by (simp add: resolveConfigPath_def js_or_str_def truthy_def split: option.splits)
  have first: "\<not> truthy arg \<longrightarrow>
        (\<forall>i < length (possiblePaths sys).
           existsSync sys (possiblePaths sys ! i)
           \<and> (\<forall>j < i. \<not> existsSync sys (possiblePaths sys ! j))
           \<longrightarrow> resolveConfigPath sys arg = possiblePaths sys ! i)"
  proof (intro impI allI)
    fix i
    assume na: "\<not> truthy arg" and i: "i < length (possiblePaths sys)"
      and h: "existsSync sys (possiblePaths sys ! i)
           \<and> (\<forall>j < i. \<not> existsSync sys (possiblePaths sys ! j))"
    then have "find (existsSync sys) (possiblePaths sys) = Some (possiblePaths sys ! i)"
      unfolding find_Some_iff by blast
    then show "resolveConfigPath sys arg = possiblePaths sys ! i"
      using na by (simp add: fallback findConfigFile_def)
  qed
  have none: "\<not> truthy arg \<and> (\<forall>q \<in> set (possiblePaths sys). \<not> existsSync sys q)
        \<longrightarrow> resolveConfigPath sys arg = join sys [homedir sys, ''.notife'', ''config.json'']"
  proof
    assume h: "\<not> truthy arg \<and> (\<forall>q \<in> set (possiblePaths sys). \<not> existsSync sys q)"
    then have "find (existsSync sys) (possiblePaths sys) = None"
      by (simp add: find_None_iff)
    then show "resolveConfigPath sys arg = join sys [homedir sys, ''.notife'', ''config.json'']"
      using h by (simp add: fallback findConfigFile_def)
  qed
  from explicit first none possiblePaths_eq [of sys] show ?thesis by blast
qed

lemma example_possiblePaths:
  "possiblePaths (example_sys Map.empty f) =
     [home_config, ''/work/config.json'', ''/work/.notife.json'', ''/home/u/.notife.json'']"
  by (simp add: possiblePaths_eq example_sys_simps example_paths)

theorem config_path_precedence_witness:
  "resolveConfigPath (example_sys Map.empty [home_config \<mapsto> ''EXAMPLE'']) (Some ''/tmp/missing.json'')
     = ''/tmp/missing.json''
   \<and> resolveConfigPath
        (example_sys Map.empty [''/work/.notife.json'' \<mapsto> ''EXAMPLE'', ''/home/u/.notife.json'' \<mapsto> ''null''])
        None = ''/work/.notife.json''
   \<and> resolveConfigPath (example_sys Map.empty Map.empty) None = home_config"
proof -
  let ?s1 = "example_sys Map.empty [home_config \<mapsto> ''EXAMPLE'']"
  let ?s2 = "example_sys Map.empty [''/work/.notife.json'' \<mapsto> ''EXAMPLE'', ''/home/u/.notife.json'' \<mapsto> ''null'']"
  let ?s3 = "example_sys Map.empty Map.empty"
  have a: "resolveConfigPath ?s1 (Some ''/tmp/missing.json'') = ''/tmp/missing.json''"
    using config_path_precedence [of "Some ''/tmp/missing.json''" "''/tmp/missing.json''" ?s1]
    by simp
  have pre: "existsSync ?s2 (possiblePaths ?s2 ! 2)
           \<and> (\<forall>j < 2. \<not> existsSync ?s2 (possiblePaths ?s2 ! j))"
    by (simp add: example_possiblePaths example_sys_simps less_Suc_eq numeral_2_eq_2 home_config_def)
  have nt: "\<not> truthy (None :: string option)"
    by (simp add: truthy_def)
  from config_path_precedence [of None "[]" ?s2] nt
  have every: "\<forall>i < length (possiblePaths ?s2).
           existsSync ?s2 (possiblePaths ?s2 ! i)
           \<and> (\<forall>j < i. \<not> existsSync ?s2 (possiblePaths ?s2 ! j))
           \<longrightarrow> resolveConfigPath ?s2 None = possiblePaths ?s2 ! i"
    by blast
  have len: "2 < length (possiblePaths ?s2)"
    by (simp add: example_possiblePaths)
  from every len pre have "resolveConfigPath ?s2 None = possiblePaths ?s2 ! 2"
    by blast
  then have b: "resolveConfigPath ?s2 None = ''/work/.notife.json''"
    by (simp add: example_possiblePaths)
  have c: "resolveConfigPath ?s3 None = home_config"
    using config_path_precedence [of None "[]" ?s3]
    by (simp add: truthy_def example_sys_simps example_paths)
  from a b c show ?thesis by blast
qed

text \<open>
  C8: \<open>loadConfig\<close> returns the empty default configuration, with a warning, when no file
  exists at the path, and with a diagnostic on the error stream when the content of the
  file does not parse. It is a total function whose result is a configuration: what the
  \<open>try\<close> block throws is caught. The configuration manager built on a path that does
  not exist holds the default.
\<close>

theorem loadConfig_degrades_to_default:
  "(\<not> existsSync sys path \<longrightarrow>
      loadConfig sys path =
        (defaultConfig,
         [ConsoleWarn (''Config file not found at '' @ path @ ''. Using default configuration.'')]))
   \<and> (existsSync sys path \<and> readFileSync sys path = Inr doc \<and> JSON_parse sys doc = Inl e
        \<longrightarrow> loadConfig sys path =
              (defaultConfig, [ConsoleError (''Error loading config file: '' @ render e)]))
   \<and> (\<not> existsSync sys (resolveConfigPath sys arg)
        \<longrightarrow> config (fst (newConfigManager sys arg)) = defaultConfig)
   \<and> platform_keys (platforms defaultConfig) = []
   \<and> defaults defaultConfig = \<lparr>defaults_platform = None, defaults_channel = None\<rparr>"
  by (simp add: loadConfig_def readAndMerge_def newConfigManager_def Let_def defaultConfig_def
      platform_keys_def)

theorem loadConfig_degrades_to_default_witness:
  "loadConfig (example_sys Map.empty Map.empty) home_config =
     (defaultConfig,
      [ConsoleWarn (''Config file not found at '' @ home_config @ ''. Using default configuration.'')])
   \<and> loadConfig (example_sys Map.empty [home_config \<mapsto> ''{oops'']) home_config =
     (defaultConfig,
      [ConsoleError (''Error loading config file: '' @ render (Thrown ''SyntaxError'' ''Unexpected token''))])
   \<and> config (fst (newConfigManager (example_sys Map.empty Map.empty) None)) = defaultConfig"
proof -
  let ?s1 = "example_sys Map.empty Map.empty"
  let ?s2 = "example_sys Map.empty [home_config \<mapsto> ''{oops'']"
  have p: "example_parse ''{oops'' = Inl (Thrown ''SyntaxError'' ''Unexpected token'')"
    by (simp add: example_parse_def no_bot_document_def)
  have a: "loadConfig ?s1 home_config =
     (defaultConfig,
      [ConsoleWarn (''Config file not found at '' @ home_config @ ''. Using default configuration.'')])"
    using loadConfig_degrades_to_default [of ?s1 home_config]
    by (simp add: example_sys_simps)
  have b: "loadConfig ?s2 home_config =
     (defaultConfig,
      [ConsoleError (''Error loading config file: '' @ render (Thrown ''SyntaxError'' ''Unexpected token''))])"
    using loadConfig_degrades_to_default [of ?s2 home_config "''{oops''" "Thrown ''SyntaxError'' ''Unexpected token''"] p
    by (simp add: example_sys_simps)
  have c: "config (fst (newConfigManager ?s1 None)) = defaultConfig"
    using loadConfig_degrades_to_default [of ?s1 _ _ _ None]
    by (simp add: example_sys_simps)
  from a b c show ?thesis by blast
qed

section \<open>Properties of the formatters\<close>

lemma replace_all_append:
  "replace_all c r (a @ b) = replace_all c r a @ replace_all c r b"
  by (simp add: replace_all_def)

lemma escape_fold_append:
  "foldl (\<lambda>escaped c. replace_all c [backslash, c] escaped) (a @ b) cs =
   foldl (\<lambda>escaped c. replace_all c [backslash, c] escaped) a cs
   @ foldl (\<lambda>escaped c. replace_all c [backslash, c] escaped) b cs"
  by (induction cs arbitrary: a b) (simp_all add: replace_all_append)

lemma escape_append:
  "escapeMarkdownV2 (a @ b) = escapeMarkdownV2 a @ escapeMarkdownV2 b"
  by (simp add: escapeMarkdownV2_def escape_fold_append)

lemma escape_fold_Nil:
  "foldl (\<lambda>escaped c. replace_all c [backslash, c] escaped) [] cs = []"
  by (induction cs) (simp_all add: replace_all_def)

lemma escape_fold_escaped:
  "b \<notin> set cs \<Longrightarrow> x \<notin> set cs \<Longrightarrow>
   foldl (\<lambda>escaped c. replace_all c [backslash, c] escaped) [b, x] cs = [b, x]"
  by (induction cs) (auto simp: replace_all_def)

lemma replace_all_single:
  "replace_all c r [x] = (if x = c then r else [x])"
  by (simp add: replace_all_def)

lemma escape_fold_single:
  "distinct cs \<Longrightarrow> backslash \<notin> set cs \<Longrightarrow>
   foldl (\<lambda>escaped c. replace_all c [backslash, c] escaped) [x] cs =
     (if x \<in> set cs then [backslash, x] else [x])"
proof (induction cs)
  case Nil
  then show ?case by simp
next
  case (Cons c cs)
  show ?case
  proof (cases "x = c")
    case True
    with Cons.prems show ?thesis
      by (simp add: replace_all_single escape_fold_escaped)
  next
    case False
    with Cons show ?thesis
      by (simp add: replace_all_single)
  qed
qed

lemma specialChars_facts:
  "distinct specialChars" "backslash \<notin> set specialChars" "length specialChars = 18"
  by (simp_all add: specialChars_def backslash_def)

lemma escape_Cons:
  "escapeMarkdownV2 (x # xs) =
     (if x \<in> set specialChars then [backslash, x] else [x]) @ escapeMarkdownV2 xs"
proof -
  have "escapeMarkdownV2 ([x] @ xs) = escapeMarkdownV2 [x] @ escapeMarkdownV2 xs"
    by (rule escape_append)
  moreover have "escapeMarkdownV2 [x] = (if x \<in> set specialChars then [backslash, x] else [x])"
    unfolding escapeMarkdownV2_def
    by (rule escape_fold_single) (rule specialChars_facts)+
  ultimately show ?thesis by simp
qed

lemma escape_eq:
  "escapeMarkdownV2 s = concat (map (\<lambda>c. if c \<in> set specialChars then [backslash, c] else [c]) s)"
proof (induction s)
  case Nil
  show ?case by (simp add: escapeMarkdownV2_def escape_fold_Nil)
next
  case (Cons x xs)
  then show ?case by (simp only: escape_Cons list.map concat.simps)
qed

lemma split_no_sep: "c \<notin> set s \<Longrightarrow> split_on c s = [s]"
  by (induction s) auto


lemma split_example:
  "split_on (CHR ''|'') ''Title|Description|#ff0000'' = [''Title'', ''Description'', ''#ff0000'']"
  by simp

lemma hex_value_simps:
  "hex_value (CHR ''f'') = Some 15" "hex_value (CHR ''0'') = Some 0"
  by (simp_all add: hex_value_def upt_conv_Cons)

lemma hex_ff0000: "hex_color ''#ff0000'' = Num 16711680"
  by (simp add: hex_color_def parseInt16_def is_space_def strip_sign_def strip_0x_def
      hex_digits_value_def hex_value_simps)


text \<open>
  C5: one application of \<open>escapeMarkdownV2\<close> puts a single backslash before every
  occurrence of each of the eighteen reserved characters and leaves every other character
  as it is. With the markdown format the payload text is that escaping of the message,
  and the send issues one request whose text is the message escaped once.
\<close>

theorem escapeMarkdownV2_one_pass:
  \<open>escapeMarkdownV2 s =
     concat (map (\<lambda>c. if c \<in> set ''_*[]()~`>#+-=|{}.!'' then [CHR 0x5C, c] else [c]) s)
   \<and> length ''_*[]()~`>#+-=|{}.!'' = 18
   \<and> distinct ''_*[]()~`>#+-=|{}.!''
   \<and> (format opts = Some Markdown \<longrightarrow>
        createMessagePayload s (Some opts) =
          \<lparr>payload_text = escapeMarkdownV2 s, disable_notification = silent opts,
           parse_mode = Some ''MarkdownV2'', chat_id = None\<rparr>
        \<and> snd (telegram_sendBotMessage sys tok channelId s (Some opts)) =
          [Fetch (telegram_request tok
             \<lparr>payload_text = escapeMarkdownV2 s, disable_notification = silent opts,
              parse_mode = Some ''MarkdownV2'', chat_id = Some channelId\<rparr>)])\<close>
proof -
  have a: \<open>escapeMarkdownV2 s =
     concat (map (\<lambda>c. if c \<in> set ''_*[]()~`>#+-=|{}.!'' then [CHR 0x5C, c] else [c]) s)\<close>
    using escape_eq [of s] by (simp only: specialChars_def backslash_def)
  have b: \<open>length ''_*[]()~`>#+-=|{}.!'' = 18\<close> \<open>distinct ''_*[]()~`>#+-=|{}.!''\<close>
    by simp_all
  have c: "format opts = Some Markdown \<longrightarrow>
        createMessagePayload s (Some opts) =
          \<lparr>payload_text = escapeMarkdownV2 s, disable_notification = silent opts,
           parse_mode = Some ''MarkdownV2'', chat_id = None\<rparr>"
    by (simp add: createMessagePayload_def)
  have d: "format opts = Some Markdown \<longrightarrow>
        snd (telegram_sendBotMessage sys tok channelId s (Some opts)) =
          [Fetch (telegram_request tok
             \<lparr>payload_text = escapeMarkdownV2 s, disable_notification = silent opts,
              parse_mode = Some ''MarkdownV2'', chat_id = Some channelId\<rparr>)]"
    by (simp add: telegram_sendBotMessage_def createMessagePayload_def Let_def)
  from a b c d show ?thesis by blast
qed

theorem escapeMarkdownV2_one_pass_witness:
  "format markdown_options = Some Markdown
   \<and> escapeMarkdownV2 ''a_b.c!'' = [CHR ''a'', CHR 0x5C, CHR ''_'', CHR ''b'', CHR 0x5C, CHR ''.'', CHR ''c'', CHR 0x5C, CHR ''!'']
   \<and> payload_text (createMessagePayload ''a_b.c!'' (Some markdown_options)) =
        [CHR ''a'', CHR 0x5C, CHR ''_'', CHR ''b'', CHR 0x5C, CHR ''.'', CHR ''c'', CHR 0x5C, CHR ''!'']"
  using escapeMarkdownV2_one_pass [of "''a_b.c!''" markdown_options]
  by (simp add: markdown_options_def)

text \<open>
  C6: for a non-empty message without a bar and the embed format, Discord builds a payload
  with exactly one embed whose title and description are both the whole message (the
  title fallback \<open>Notification\<close> is not taken), and Telegram's text is the bold escaped
  message as title followed by the escaped message as description.
\<close>

theorem embed_without_separator:
  assumes "message \<noteq> []" and "CHR ''|'' \<notin> set message" and "format opts = Some Embed"
  shows "createBotPayload sys message (Some opts) =
           \<lparr>content = None,
            embeds = Some [\<lparr>embed_title = message, embed_description = message,
                            embed_timestamp = now_iso sys,
                            embed_color = (if truthy (color opts)
                                           then map_option hex_color (color opts) else None),
                            embed_fields = option_fields opts\<rparr>]\<rparr>
     \<and> formatAsEmbed message (Some opts) =
           ''*'' @ escapeMarkdownV2 message @ ''*'' @ [CHR 0x0A, CHR 0x0A] @ escapeMarkdownV2 message
           @ (case option_fields opts of
                None \<Rightarrow> []
              | Some fs \<Rightarrow> if fs = [] then []
                           else [CHR 0x0A, CHR 0x0A] @ concat (map format_field fs))"
  using assms
  by (simp add: createBotPayload_def formatAsEmbed_def split_no_sep part_def js_or_str_def
      js_or_def truthy_def Let_def split: option.splits)

theorem embed_without_separator_witness:
  "''OnlyTitle'' \<noteq> [] \<and> CHR ''|'' \<notin> set ''OnlyTitle'' \<and> format embed_options = Some Embed
   \<and> createBotPayload (example_sys Map.empty Map.empty) ''OnlyTitle'' (Some embed_options) =
           \<lparr>content = None,
            embeds = Some [\<lparr>embed_title = ''OnlyTitle'', embed_description = ''OnlyTitle'',
                            embed_timestamp = ''2024-05-01T12:00:00.000Z'',
                            embed_color = None, embed_fields = None\<rparr>]\<rparr>
   \<and> formatAsEmbed ''OnlyTitle'' (Some embed_options) =
        ''*OnlyTitle*'' @ [CHR 0x0A, CHR 0x0A] @ ''OnlyTitle''"
proof -
  have e: "escapeMarkdownV2 ''OnlyTitle'' = ''OnlyTitle''"
    by (simp add: escape_eq specialChars_def)
  show ?thesis
    using embed_without_separator
      [of "''OnlyTitle''" embed_options "example_sys Map.empty Map.empty"]
    by (simp add: embed_options_def truthy_def example_sys_simps e)
qed

text \<open>
  C7: the message \<open>Title|Description|#ff0000\<close> with the embed format gives the Discord
  payload one embed with title \<open>Title\<close>, description \<open>Description\<close>, colour 16711680
  and, as timestamp, the ISO string that the clock returns at formatting time.
\<close>

theorem embed_title_description_color:
  "format opts = Some Embed \<Longrightarrow>
   createBotPayload sys ''Title|Description|#ff0000'' (Some opts) =
     \<lparr>content = None,
      embeds = Some [\<lparr>embed_title = ''Title'', embed_description = ''Description'',
                      embed_timestamp = now_iso sys,
                      embed_color = Some (Num 16711680),
                      embed_fields = option_fields opts\<rparr>]\<rparr>"
  by (simp add: createBotPayload_def split_example part_def js_or_str_def truthy_def
      hex_ff0000 Let_def)

theorem embed_title_description_color_witness:
  "format embed_options = Some Embed
   \<and> createBotPayload (example_sys Map.empty Map.empty) ''Title|Description|#ff0000''
        (Some embed_options) =
     \<lparr>content = None,
      embeds = Some [\<lparr>embed_title = ''Title'', embed_description = ''Description'',
                      embed_timestamp = ''2024-05-01T12:00:00.000Z'',
                      embed_color = Some (Num 16711680),
                      embed_fields = None\<rparr>]\<rparr>"
  using embed_title_description_color [of embed_options "example_sys Map.empty Map.empty"]
  by (simp add: embed_options_def example_sys_simps)

section \<open>Properties of the send command\<close>

lemma load_example:
  "newConfigManager example_home_sys None = (\<lparr>config = example_config, configPath = home_config\<rparr>, [])"
  by (simp add: example_home_sys_def newConfigManager_def resolveConfigPath_def js_or_str_def
      findConfigFile_def example_possiblePaths example_sys_simps example_paths
      loadConfig_def readAndMerge_def example_parse_def no_bot_document_def example_config_def
      defaultConfig_def)

lemma validate_example:
  "validateConfig example_home_sys example_config = Inr \<lparr>valid = True, errors = []\<rparr>"
  by (simp add: validateConfig_def validateDiscord_def validateTelegram_def example_config_def
      example_platforms_def example_bot_def platform_keys_def truthy_def)

lemma handleSendCommand_valid:
  "newConfigManager sys (arg_config args) = (mgr, out0) \<Longrightarrow>
   validateConfig sys (config mgr) = Inr v \<Longrightarrow> valid v \<Longrightarrow>
   handleSendCommand sys args =
     out0 @ concat (map (\<lambda>p. sendToPlatform sys p args (config mgr) (messageOptions_of args))
                        (selectPlatforms args (config mgr)))"
  by (simp add: handleSendCommand_def messageOptions_of_def)

lemma chooseTarget_discord:
  "chooseTarget ''discord'' args cfg = Inr (Some (js_or_str (requested_channel args cfg) ''general''))"
  by (auto simp: chooseTarget_def requested_channel_def js_or_def js_or_str_def truthy_def Let_def
      split: option.splits)

lemma chooseTarget_telegram:
  "chooseTarget ''telegram'' args cfg =
     (if truthy (requested_channel args cfg) then Inr (requested_channel args cfg)
      else Inl [telegram_requires])"
  by (auto simp: chooseTarget_def requested_channel_def js_or_def truthy_def Let_def
      telegram_requires_def split: option.splits)

lemma chooseTarget_other:
  "p \<noteq> ''discord'' \<Longrightarrow> p \<noteq> ''telegram'' \<Longrightarrow>
   chooseTarget p args cfg = Inl [ConsoleError (''Unsupported platform: '' @ p)]"
  by (simp add: chooseTarget_def)

lemma js_or_str_nonempty: "b \<noteq> [] \<Longrightarrow> js_or_str a b \<noteq> []"
  by (simp add: js_or_str_def split: option.splits)

lemma sendToPlatform_discord:
  "sendToPlatform sys ''discord'' args cfg opts =
     (let tgt = js_or_str (requested_channel args cfg) ''general'' in
      if arg_dry_run args then preview ''discord'' tgt (arg_m args) opts
      else (if \<not> silent opts then [ConsoleLog ''Sending message to discord...''] else [])
           @ snd (discord_sendMessage sys cfg tgt (arg_m args) (Some opts))
           @ reportResult ''discord'' opts (fst (discord_sendMessage sys cfg tgt (arg_m args) (Some opts))))"
  by (simp add: sendToPlatform_def chooseTarget_discord truthy_def js_or_str_nonempty preview_def
      Let_def split_beta)

lemma sendToPlatform_telegram_none:
  "\<not> truthy (requested_channel args cfg) \<Longrightarrow>
   sendToPlatform sys ''telegram'' args cfg opts = [telegram_requires]"
  by (simp add: sendToPlatform_def chooseTarget_telegram)

lemma sendToPlatform_telegram_some:
  "requested_channel args cfg = Some tgt \<Longrightarrow> tgt \<noteq> [] \<Longrightarrow>
   sendToPlatform sys ''telegram'' args cfg opts =
     (if arg_dry_run args then preview ''telegram'' tgt (arg_m args) opts
      else (if \<not> silent opts then [ConsoleLog ''Sending message to telegram...''] else [])
           @ snd (telegram_sendMessage sys cfg tgt (arg_m args) (Some opts))
           @ reportResult ''telegram'' opts (fst (telegram_sendMessage sys cfg tgt (arg_m args) (Some opts))))"
  by (simp add: sendToPlatform_def chooseTarget_telegram truthy_def preview_def Let_def split_beta)

lemma sendToPlatform_other:
  "p \<noteq> ''discord'' \<Longrightarrow> p \<noteq> ''telegram'' \<Longrightarrow>
   sendToPlatform sys p args cfg opts = [ConsoleError (''Unsupported platform: '' @ p)]"
  by (simp add: sendToPlatform_def chooseTarget_other)

lemma preview_no_fetch: "e \<in> set (preview p t m opts) \<Longrightarrow> \<not> is_fetch e"
  by (auto simp: preview_def is_fetch_def)

lemma sendToPlatform_dry_no_fetch:
  assumes "arg_dry_run args" and "e \<in> set (sendToPlatform sys p args cfg opts)"
  shows "\<not> is_fetch e"
proof -
  consider (d) "p = ''discord''" | (t) "p = ''telegram''" | (o) "p \<noteq> ''discord''" "p \<noteq> ''telegram''"
    by blast
  then show ?thesis
  proof cases
    case d
    with assms show ?thesis
      by (auto simp: sendToPlatform_discord Let_def dest: preview_no_fetch)
  next
    case t
    show ?thesis
    proof (cases "truthy (requested_channel args cfg)")
      case True
      then obtain tgt where "requested_channel args cfg = Some tgt" "tgt \<noteq> []"
        by (auto simp: truthy_def split: option.splits)
      with assms t show ?thesis
        by (auto simp: sendToPlatform_telegram_some dest: preview_no_fetch)
    next
      case False
      with assms t show ?thesis
        by (simp add: sendToPlatform_telegram_none telegram_requires_def is_fetch_def)
    qed
  next
    case o
    with assms show ?thesis
      by (simp add: sendToPlatform_other is_fetch_def)
  qed
qed

lemma loadConfig_no_fetch: "e \<in> set (snd (loadConfig sys path)) \<Longrightarrow> \<not> is_fetch e"
  by (auto simp: loadConfig_def is_fetch_def split: if_splits sum.splits)

lemma newConfigManager_no_fetch: "e \<in> set (snd (newConfigManager sys arg)) \<Longrightarrow> \<not> is_fetch e"
  by (auto simp: newConfigManager_def Let_def split_beta dest: loadConfig_no_fetch)

lemma handleSendCommand_dry_no_fetch:
  assumes "arg_dry_run args" and "e \<in> set (handleSendCommand sys args)"
  shows "\<not> is_fetch e"
proof -
  obtain mgr out0 where m: "newConfigManager sys (arg_config args) = (mgr, out0)"
    by (cases "newConfigManager sys (arg_config args)")
  have o: "\<And>x. x \<in> set out0 \<Longrightarrow> \<not> is_fetch x"
    using newConfigManager_no_fetch [of _ sys "arg_config args"] m by simp
  show ?thesis
  proof (cases "validateConfig sys (config mgr)")
    case (Inl err)
    with assms(2) m o show ?thesis
      by (auto simp: handleSendCommand_def is_fetch_def)
  next
    case (Inr v)
    show ?thesis
    proof (cases "valid v")
      case True
      from handleSendCommand_valid [OF m Inr True] assms(2)
      have "e \<in> set out0 \<or> (\<exists>p. e \<in> set (sendToPlatform sys p args (config mgr) (messageOptions_of args)))"
        by auto
      with o sendToPlatform_dry_no_fetch [OF assms(1)] show ?thesis by blast
    next
      case False
      with assms(2) m o Inr show ?thesis
        by (auto simp: handleSendCommand_def is_fetch_def)
    qed
  qed
qed


text \<open>
  C4: with no channel-ID flag, no channel-alias flag and no default channel, the Telegram
  dispatch prints its per-platform error and does nothing else, and the Discord dispatch
  goes to the hardcoded channel name \<open>general\<close>. In a run that selects both platforms on
  a valid configuration, the trace is the whole Discord dispatch followed by the Telegram
  error, with no process exit.
\<close>

theorem telegram_without_channel_is_skipped:
  assumes "\<not> truthy (arg_channelID args)" and "\<not> truthy (arg_channel args)"
    and "\<not> truthy (defaults_channel (defaults cfg))"
  shows "sendToPlatform sys ''telegram'' args cfg opts = [telegram_requires]
     \<and> chooseTarget ''discord'' args cfg = Inr (Some ''general'')
     \<and> sendToPlatform sys ''discord'' args cfg opts =
         (if arg_dry_run args then preview ''discord'' ''general'' (arg_m args) opts
          else (if \<not> silent opts then [ConsoleLog ''Sending message to discord...''] else [])
               @ snd (discord_sendMessage sys cfg ''general'' (arg_m args) (Some opts))
               @ reportResult ''discord'' opts
                   (fst (discord_sendMessage sys cfg ''general'' (arg_m args) (Some opts))))
     \<and> (arg_discord args \<and> arg_telegram args
          \<and> newConfigManager sys (arg_config args) = (mgr, out0) \<and> config mgr = cfg
          \<and> validateConfig sys cfg = Inr v \<and> valid v
        \<longrightarrow> handleSendCommand sys args =
              out0 @ sendToPlatform sys ''discord'' args cfg (messageOptions_of args)
                   @ [telegram_requires])"
proof -
  from assms have r: "\<not> truthy (requested_channel args cfg)"
    by (simp add: requested_channel_def js_or_def)
  then have g: "js_or_str (requested_channel args cfg) ''general'' = ''general''"
    by (simp add: js_or_str_def truthy_def split: option.splits)
  have a: "sendToPlatform sys ''telegram'' args cfg opts = [telegram_requires]" for opts
    using r by (rule sendToPlatform_telegram_none)
  have b: "chooseTarget ''discord'' args cfg = Inr (Some ''general'')"
    by (simp add: chooseTarget_discord g)
  have c: "sendToPlatform sys ''discord'' args cfg opts =
         (if arg_dry_run args then preview ''discord'' ''general'' (arg_m args) opts
          else (if \<not> silent opts then [ConsoleLog ''Sending message to discord...''] else [])
               @ snd (discord_sendMessage sys cfg ''general'' (arg_m args) (Some opts))
               @ reportResult ''discord'' opts
                   (fst (discord_sendMessage sys cfg ''general'' (arg_m args) (Some opts))))"
    by (simp add: sendToPlatform_discord g Let_def)
  have d: "arg_discord args \<and> arg_telegram args
          \<and> newConfigManager sys (arg_config args) = (mgr, out0) \<and> config mgr = cfg
          \<and> validateConfig sys cfg = Inr v \<and> valid v
        \<longrightarrow> handleSendCommand sys args =
              out0 @ sendToPlatform sys ''discord'' args cfg (messageOptions_of args)
                   @ [telegram_requires]"
  proof
    assume h: "arg_discord args \<and> arg_telegram args
          \<and> newConfigManager sys (arg_config args) = (mgr, out0) \<and> config mgr = cfg
          \<and> validateConfig sys cfg = Inr v \<and> valid v"
    then have "handleSendCommand sys args =
        out0 @ concat (map (\<lambda>p. sendToPlatform sys p args (config mgr) (messageOptions_of args))
                        (selectPlatforms args (config mgr)))"
      by (intro handleSendCommand_valid [where v = v]) simp_all
    moreover from h have "selectPlatforms args (config mgr) = [''discord'', ''telegram'']"
      by (simp add: selectPlatforms_def)
    ultimately show "handleSendCommand sys args =
              out0 @ sendToPlatform sys ''discord'' args cfg (messageOptions_of args)
                   @ [telegram_requires]"
      using h a by simp
  qed
  from a b c d show ?thesis by blast
qed

lemma example_args_facts:
  "\<not> truthy (arg_channelID example_args)" "\<not> truthy (arg_channel example_args)"
  "\<not> truthy (defaults_channel (defaults example_config))"
  "arg_discord example_args" "arg_telegram example_args" "arg_config example_args = None"
  "\<not> arg_dry_run example_args" "arg_m example_args = ''hello''"
  "messageOptions_of example_args =
     \<lparr>format = Some Plain, silent = False, title = None, color = None, option_fields = None\<rparr>"
  by (simp_all add: example_args_def example_config_def truthy_def messageOptions_of_def)

lemma example_discord_send:
  "discord_sendMessage example_home_sys example_config ''general'' ''hello''
     (Some \<lparr>format = Some Plain, silent = False, title = None, color = None, option_fields = None\<rparr>) =
     (\<lparr>success = True, messageId = Some ''m1'', error = None, timestamp = ''2024-05-01T12:00:00.000Z''\<rparr>,
      [Fetch (discord_request ''secret'' ''999'' \<lparr>content = Some ''hello'', embeds = None\<rparr>)])"
  by (simp add: discord_sendMessage_nonempty_target getDiscordToken_def js_or_def truthy_def
      example_home_sys_def example_sys_simps example_config_def example_platforms_def example_bot_def
      getDiscordChannel_def re_digits_def is_digit_def js_or_str_def js_or_value_def js_get_def
      falsy_def template_text_def
      discord_sendBotMessage_def createBotPayload_def example_args_facts example_response_def
      createSuccessResult_def Let_def)

theorem telegram_without_channel_is_skipped_witness:
  "handleSendCommand example_home_sys example_args =
     [ConsoleLog ''Sending message to discord...'',
      Fetch (discord_request ''secret'' ''999'' \<lparr>content = Some ''hello'', embeds = None\<rparr>),
      ConsoleLog (check_mark @ '' Message sent successfully to discord''),
      ConsoleLog ''   Message ID: m1'',
      ConsoleError ''Telegram requires --channelID or --channel parameter'']"
  using telegram_without_channel_is_skipped
    [of example_args example_config example_home_sys "messageOptions_of example_args"
        "\<lparr>config = example_config, configPath = home_config\<rparr>" "[]"
        "\<lparr>valid = True, errors = []\<rparr>"]
  by (simp add: example_args_facts load_example validate_example example_discord_send
      reportResult_def telegram_requires_def)


text \<open>
  C9, as stated, fails: in a dry run that selects Telegram with no channel flag and no
  default channel, the whole output is the Telegram error; no preview is printed.
\<close>

theorem dry_run_without_preview_counterexample:
  "arg_dry_run dry_run_telegram_args
   \<and> selectPlatforms dry_run_telegram_args example_config = [''telegram'']
   \<and> handleSendCommand example_home_sys dry_run_telegram_args = [telegram_requires]"
proof -
  have a: "arg_dry_run dry_run_telegram_args" "arg_config dry_run_telegram_args = None"
    by (simp_all add: dry_run_telegram_args_def example_args_def)
  have b: "selectPlatforms dry_run_telegram_args example_config = [''telegram'']"
    by (simp add: selectPlatforms_def dry_run_telegram_args_def example_args_def)
  have r: "\<not> truthy (requested_channel dry_run_telegram_args example_config)"
    by (simp add: requested_channel_def js_or_def truthy_def dry_run_telegram_args_def
        example_args_def example_config_def)
  have "handleSendCommand example_home_sys dry_run_telegram_args =
     [] @ concat (map (\<lambda>p. sendToPlatform example_home_sys p dry_run_telegram_args
                              (config \<lparr>config = example_config, configPath = home_config\<rparr>)
                              (messageOptions_of dry_run_telegram_args))
                   (selectPlatforms dry_run_telegram_args
                      (config \<lparr>config = example_config, configPath = home_config\<rparr>)))"
    by (rule handleSendCommand_valid [where v = "\<lparr>valid = True, errors = []\<rparr>"])
       (simp_all add: a load_example validate_example)
  then have c: "handleSendCommand example_home_sys dry_run_telegram_args = [telegram_requires]"
    by (simp add: b sendToPlatform_telegram_none [OF r])
  from a b c show ?thesis by blast
qed

text \<open>
  C9, amended: in a dry run no HTTP request is issued, by the run and by each dispatch.
  A platform for which a channel is chosen prints the preview with the platform name,
  the chosen channel as given (flag or default, before alias resolution) and the message:
  Discord always, with \<open>general\<close> as last resort, and Telegram when the channel-ID flag,
  the alias flag or the default channel is non-empty. When none is, Telegram prints its
  error and no preview, and a platform name other than the two prints the
  unsupported-platform error.
\<close>

theorem dry_run_preview:
  assumes "arg_dry_run args"
  shows "filter is_fetch (handleSendCommand sys args) = []
     \<and> filter is_fetch (sendToPlatform sys p args cfg opts) = []
     \<and> sendToPlatform sys ''discord'' args cfg opts =
         preview ''discord'' (js_or_str (requested_channel args cfg) ''general'') (arg_m args) opts
     \<and> (requested_channel args cfg = Some tgt \<and> tgt \<noteq> [] \<longrightarrow>
          sendToPlatform sys ''telegram'' args cfg opts = preview ''telegram'' tgt (arg_m args) opts)
     \<and> (\<not> truthy (requested_channel args cfg) \<longrightarrow>
          sendToPlatform sys ''telegram'' args cfg opts = [telegram_requires])
     \<and> (p \<noteq> ''discord'' \<and> p \<noteq> ''telegram'' \<longrightarrow>
          sendToPlatform sys p args cfg opts = [ConsoleError (''Unsupported platform: '' @ p)])"
proof -
  have a: "filter is_fetch (handleSendCommand sys args) = []"
    using handleSendCommand_dry_no_fetch [OF assms] by (simp add: filter_empty_conv)
  have b: "filter is_fetch (sendToPlatform sys p args cfg opts) = []"
    using sendToPlatform_dry_no_fetch [OF assms] by (simp add: filter_empty_conv)
  have c: "sendToPlatform sys ''discord'' args cfg opts =
         preview ''discord'' (js_or_str (requested_channel args cfg) ''general'') (arg_m args) opts"
    using assms by (simp add: sendToPlatform_discord Let_def)
  have d: "requested_channel args cfg = Some tgt \<and> tgt \<noteq> [] \<longrightarrow>
          sendToPlatform sys ''telegram'' args cfg opts = preview ''telegram'' tgt (arg_m args) opts"
    using assms by (simp add: sendToPlatform_telegram_some)
  have e: "\<not> truthy (requested_channel args cfg) \<longrightarrow>
          sendToPlatform sys ''telegram'' args cfg opts = [telegram_requires]"
    by (simp add: sendToPlatform_telegram_none)
  have f: "p \<noteq> ''discord'' \<and> p \<noteq> ''telegram'' \<longrightarrow>
          sendToPlatform sys p args cfg opts = [ConsoleError (''Unsupported platform: '' @ p)]"
    by (simp add: sendToPlatform_other)
  from a b c d e f show ?thesis by blast
qed

theorem dry_run_preview_witness:
  "arg_dry_run dry_run_alias_args
   \<and> requested_channel dry_run_alias_args example_config = Some ''alerts''
   \<and> getDiscordChannel example_config ''alerts'' = Str ''123456''
   \<and> sendToPlatform example_home_sys ''discord'' dry_run_alias_args example_config
        (messageOptions_of dry_run_alias_args) =
      [ConsoleLog ''[DRY RUN] Would send to discord:'',
       ConsoleLog ''  Target: alerts'',
       ConsoleLog ''  Message: hello'',
       ConsoleLogJson ''  Options: '' (messageOptions_of dry_run_alias_args)]
   \<and> sendToPlatform example_home_sys ''telegram'' dry_run_alias_args example_config
        (messageOptions_of dry_run_alias_args) =
      [ConsoleLog ''[DRY RUN] Would send to telegram:'',
       ConsoleLog ''  Target: alerts'',
       ConsoleLog ''  Message: hello'',
       ConsoleLogJson ''  Options: '' (messageOptions_of dry_run_alias_args)]
   \<and> filter is_fetch (handleSendCommand example_home_sys dry_run_alias_args) = []"
proof -
  have a: "arg_dry_run dry_run_alias_args" "arg_m dry_run_alias_args = ''hello''"
    by (simp_all add: dry_run_alias_args_def example_args_def)
  have r: "requested_channel dry_run_alias_args example_config = Some ''alerts''"
    by (simp add: requested_channel_def js_or_def truthy_def dry_run_alias_args_def
        example_args_def example_config_def)
  have g: "getDiscordChannel example_config ''alerts'' = Str ''123456''"
    by (simp add: getDiscordChannel_cases example_tables example_patterns)
  from dry_run_preview [OF a(1), of example_home_sys "''telegram''" example_config
      "messageOptions_of dry_run_alias_args" "''alerts''"] r a g
  show ?thesis
    by (simp add: preview_def js_or_str_def)
qed

section \<open>The resolver on names inherited from the object prototype\<close>

lemma example_tokens:
  "getDiscordToken example_home_sys example_config = Some ''secret''"
  "getTelegramToken example_home_sys example_config = Some ''secret''"
  by (simp_all add: getDiscordToken_def getTelegramToken_def js_or_def truthy_def
      example_home_sys_def example_sys_simps example_config_def example_platforms_def
      example_bot_def)

lemma example_home_simps:
  "member_text example_home_sys ''constructor'' = ''function Object() { [native code] }''"
  "fetch example_home_sys req = Inr example_response"
  by (simp_all add: example_home_sys_def example_sys_simps)

lemma example_constructor:
  "getDiscordChannel example_config ''constructor'' = Inherited ''constructor''"
  "getTelegramChannel example_config ''constructor'' = Inherited ''constructor''"
  by (simp_all add: getDiscordChannel_cases getTelegramChannel_cases example_tables
      example_patterns example_members)

text \<open>
  C10 fails on the code. The target \<open>constructor\<close> is not empty and is not a key of the
  alias tables, and both resolvers, declared to return a string, return the member of
  \<open>Object.prototype\<close> of that name. The send goes on with it: the Discord request is
  addressed to the text of that function, and the Telegram payload carries it as
  \<open>chat_id\<close>. The invalid-channel branch is not taken.
\<close>

theorem resolver_returns_inherited_member:
  "''constructor'' \<noteq> []
   \<and> discord_channels_of example_config ''constructor'' = None
   \<and> telegram_channels_of example_config ''constructor'' = None
   \<and> getDiscordChannel example_config ''constructor'' = Inherited ''constructor''
   \<and> getTelegramChannel example_config ''constructor'' = Inherited ''constructor''
   \<and> snd (discord_sendMessage example_home_sys example_config ''constructor'' ''hello'' None) =
       [Fetch (discord_request ''secret'' ''function Object() { [native code] }''
                 \<lparr>content = Some ''hello'', embeds = None\<rparr>)]
   \<and> snd (telegram_sendMessage example_home_sys example_config ''constructor'' ''hello'' None) =
       [Fetch (telegram_request ''secret''
                 \<lparr>payload_text = ''hello'', disable_notification = False, parse_mode = None,
                  chat_id = Some (Inherited ''constructor'')\<rparr>)]"
proof -
  have d: "snd (discord_sendMessage example_home_sys example_config ''constructor'' ''hello'' None) =
       [Fetch (discord_request ''secret'' ''function Object() { [native code] }''
                 \<lparr>content = Some ''hello'', embeds = None\<rparr>)]"
    by (simp add: discord_sendMessage_nonempty_target example_tokens example_constructor
        discord_sendBotMessage_def template_text_def createBotPayload_def Let_def
        example_home_simps)
  have t: "snd (telegram_sendMessage example_home_sys example_config ''constructor'' ''hello'' None) =
       [Fetch (telegram_request ''secret''
                 \<lparr>payload_text = ''hello'', disable_notification = False, parse_mode = None,
                  chat_id = Some (Inherited ''constructor'')\<rparr>)]"
    by (simp add: telegram_sendMessage_nonempty_target example_tokens example_constructor
        telegram_sendBotMessage_def createMessagePayload_def Let_def)
  show ?thesis
    by (simp add: example_tables example_constructor d t)
qed

end
